theory Spec2Isabelle
  imports
    Complex_Main
    "HOL-Library.Char_ord"
    "HOL-Library.List_Lexorder"
    "HOL-Library.Log_Nat"
    "HOL-Library.Option_ord"
    "HOL-Library.Product_Lexorder"
begin

section \<open>SQL values and the store's built-in functions\<close>

text \<open>
  The pipeline keeps all of its decision logic in SQL statements that are sent to the
  store (files \<^verbatim>\<open>transforms.py\<close> and \<^verbatim>\<open>validation.py\<close>). A nullable column of
  SQL type \<open>T\<close> is an \<open>option\<close>, with \<open>None\<close> for \<^verbatim>\<open>NULL\<close>. A \<^verbatim>\<open>VARCHAR\<close> is a
  \<open>string\<close>, compared byte by byte (the default binary collation). A table is the
  list of its rows.
\<close>

type_synonym varchar = "string option"

text \<open>\<^verbatim>\<open>LOWER\<close> on the ASCII letters and \<^verbatim>\<open>TRIM\<close>, which removes spaces at both ends.
  Both return \<^verbatim>\<open>NULL\<close> on \<^verbatim>\<open>NULL\<close>.\<close>

definition lower_char :: "char \<Rightarrow> char" where
  "lower_char c =
     (case map_of (zip ''ABCDEFGHIJKLMNOPQRSTUVWXYZ'' ''abcdefghijklmnopqrstuvwxyz'') c of
        None \<Rightarrow> c
      | Some l \<Rightarrow> l)"

definition lower_str :: "string \<Rightarrow> string" where
  "lower_str s = map lower_char s"

definition trim_str :: "string \<Rightarrow> string" where
  "trim_str s = rev (dropWhile (\<lambda>c. c = CHR '' '') (rev (dropWhile (\<lambda>c. c = CHR '' '') s)))"

definition LOWER :: "varchar \<Rightarrow> varchar" where
  "LOWER v = map_option lower_str v"

definition TRIM :: "varchar \<Rightarrow> varchar" where
  "TRIM v = map_option trim_str v"

definition COALESCE :: "'a option \<Rightarrow> 'a option \<Rightarrow> 'a option" where
  "COALESCE a b = (case a of None \<Rightarrow> b | Some x \<Rightarrow> Some x)"

text \<open>\<^verbatim>\<open>REPLACE(s, ',', '.')\<close>: every comma becomes a full stop.\<close>

definition replace_commas :: "string \<Rightarrow> string" where
  "replace_commas s = map (\<lambda>c. if c = CHR '','' then CHR ''.'' else c) s"

definition REPLACE_comma :: "varchar \<Rightarrow> varchar" where
  "REPLACE_comma v = map_option replace_commas v"

text \<open>Three-valued logic: a predicate over \<^verbatim>\<open>NULL\<close> is unknown (\<open>None\<close>), and a
  \<^verbatim>\<open>WHERE\<close> clause keeps a row only when its condition is true. A conjunction is
  true exactly when each conjunct is, so a \<^verbatim>\<open>WHERE a AND b\<close> is modelled as
  \<open>is_true a \<and> is_true b\<close>.\<close>

definition is_true :: "bool option \<Rightarrow> bool" where
  "is_true b = (b = Some True)"

definition sql_less :: "'a::linorder option \<Rightarrow> 'a option \<Rightarrow> bool option" where
  "sql_less a b =
     (case a of None \<Rightarrow> None | Some x \<Rightarrow> (case b of None \<Rightarrow> None | Some y \<Rightarrow> Some (x < y)))"

definition sql_eq :: "'a option \<Rightarrow> 'a option \<Rightarrow> bool option" where
  "sql_eq a b =
     (case a of None \<Rightarrow> None | Some x \<Rightarrow> (case b of None \<Rightarrow> None | Some y \<Rightarrow> Some (x = y)))"

text \<open>\<^verbatim>\<open>x IN (SELECT ...)\<close>: true when some value of the list equals \<open>x\<close>; otherwise
  unknown when \<open>x\<close> or a value of the list is \<^verbatim>\<open>NULL\<close> (and the list is not empty),
  false when all are different. \<^verbatim>\<open>NOT IN\<close> is its negation, unknown staying unknown.\<close>

definition sql_in :: "'a option \<Rightarrow> 'a option list \<Rightarrow> bool option" where
  "sql_in x ys =
     (case x of
        None \<Rightarrow> (if ys = [] then Some False else None)
      | Some v \<Rightarrow>
          (if Some v \<in> set ys then Some True
           else if None \<in> set ys then None
           else Some False))"

definition sql_not_in :: "'a option \<Rightarrow> 'a option list \<Rightarrow> bool option" where
  "sql_not_in x ys = map_option Not (sql_in x ys)"

subsection \<open>\<^verbatim>\<open>TRY_CAST\<close> and the clock\<close>

text \<open>
  Which strings the store reads as a number, a date or a timestamp is decided by the
  store, not by this repository. The casts and the clock are therefore parameters of
  the model, and each property below states what it needs of them. \<open>cast_integer\<close>
  is the cast of a string to \<^verbatim>\<open>INTEGER\<close>, \<open>cast_decimal p k\<close> the cast to
  \<^verbatim>\<open>DECIMAL(p, k)\<close> (a rational); a date is a day number, a timestamp a number of
  microseconds. A cast that fails is \<open>None\<close>, which \<^verbatim>\<open>TRY_CAST\<close> turns into \<^verbatim>\<open>NULL\<close>;
  \<^verbatim>\<open>TRY_CAST\<close> of \<^verbatim>\<open>NULL\<close> is \<^verbatim>\<open>NULL\<close>.
\<close>

record engine =
  cast_integer :: "string \<Rightarrow> int option"
  cast_decimal :: "nat \<Rightarrow> nat \<Rightarrow> string \<Rightarrow> rat option"
  cast_date :: "string \<Rightarrow> int option"
  cast_timestamp :: "string \<Rightarrow> int option"
  current_timestamp :: int

definition try_cast_integer :: "engine \<Rightarrow> varchar \<Rightarrow> int option" where
  "try_cast_integer eng v = (case v of None \<Rightarrow> None | Some s \<Rightarrow> cast_integer eng s)"

definition try_cast_decimal :: "engine \<Rightarrow> nat \<Rightarrow> nat \<Rightarrow> varchar \<Rightarrow> rat option" where
  "try_cast_decimal eng p k v = (case v of None \<Rightarrow> None | Some s \<Rightarrow> cast_decimal eng p k s)"

definition try_cast_date :: "engine \<Rightarrow> varchar \<Rightarrow> int option" where
  "try_cast_date eng v = (case v of None \<Rightarrow> None | Some s \<Rightarrow> cast_date eng s)"

definition try_cast_timestamp :: "engine \<Rightarrow> varchar \<Rightarrow> int option" where
  "try_cast_timestamp eng v = (case v of None \<Rightarrow> None | Some s \<Rightarrow> cast_timestamp eng s)"

text \<open>\<^verbatim>\<open>DATE(ts)\<close>: the day of a timestamp.\<close>

definition DATE :: "int option \<Rightarrow> int option" where
  "DATE ts = map_option (\<lambda>t. t div 86400000000) ts"

section \<open>Deduplication: \<^verbatim>\<open>SELECT DISTINCT ON (k) * ... WHERE k IS NOT NULL ORDER BY k, t\<close>\<close>

text \<open>
  The three loaders of \<^verbatim>\<open>transforms.py\<close> start with the same common table
  expression \<^verbatim>\<open>deduped\<close>:
  \<^verbatim>\<open>SELECT DISTINCT ON (key) * FROM raw WHERE key IS NOT NULL ORDER BY key, tie\<close>.
  \<^verbatim>\<open>DISTINCT ON\<close> keeps the first row of each key in the order of \<^verbatim>\<open>ORDER BY\<close>.
  SQL leaves the order of rows that agree on \<open>(key, tie)\<close> open; the model sorts
  stably, so such rows stay in table order.
\<close>

fun distinct_on :: "('r \<Rightarrow> 'k) \<Rightarrow> 'r list \<Rightarrow> 'r list" where
  "distinct_on k [] = []"
| "distinct_on k (r # rs) = r # distinct_on k (filter (\<lambda>x. k x \<noteq> k r) rs)"

definition deduped :: "('r \<Rightarrow> 'k::linorder option) \<Rightarrow> ('r \<Rightarrow> 't::linorder) \<Rightarrow> 'r list \<Rightarrow> 'r list" where
  "deduped key tie rows =
     distinct_on key
       (sort_key (\<lambda>r. (key r, tie r))
         (filter (\<lambda>r. key r \<noteq> None) rows))"

section \<open>Staging model (\<^verbatim>\<open>schema.py\<close>, \<^verbatim>\<open>CREATE_STAGING_*\<close>)\<close>

text \<open>Every source column is a nullable \<^verbatim>\<open>VARCHAR\<close>; \<^verbatim>\<open>_row_id\<close> is the integer
  primary key and \<^verbatim>\<open>_load_timestamp\<close> a timestamp (microseconds), filled by default.\<close>

record raw_customer =
  rc_row_id :: int
  rc_customer_id :: varchar
  rc_name :: varchar
  rc_email :: varchar
  rc_age :: varchar
  rc_city :: varchar
  rc_country :: varchar
  rc_signup_date :: varchar
  rc_favorite_team :: varchar
  rc_membership_tier :: varchar
  rc_gender :: varchar
  rc_load_timestamp :: int

record raw_transaction =
  rt_row_id :: int
  rt_transaction_id :: varchar
  rt_customer_id :: varchar
  rt_timestamp :: varchar
  rt_amount :: varchar
  rt_currency :: varchar
  rt_category :: varchar
  rt_merchant :: varchar
  rt_description :: varchar
  rt_load_timestamp :: int

record raw_post =
  rs_row_id :: int
  rs_id :: varchar
  rs_user :: varchar
  rs_source :: varchar
  rs_text :: varchar
  rs_published_at :: varchar
  rs_topic :: varchar
  rs_tags :: varchar
  rs_sentiment_score :: varchar
  rs_engagement :: varchar
  rs_load_timestamp :: int

text \<open>The three \<^verbatim>\<open>deduped\<close> expressions, with the key and the tie-break of each loader.\<close>

definition deduped_customers :: "raw_customer list \<Rightarrow> raw_customer list" where
  "deduped_customers = deduped rc_customer_id rc_load_timestamp"

definition deduped_transactions :: "raw_transaction list \<Rightarrow> raw_transaction list" where
  "deduped_transactions = deduped rt_transaction_id rt_row_id"

definition deduped_sentiment :: "raw_post list \<Rightarrow> raw_post list" where
  "deduped_sentiment = deduped rs_id rs_load_timestamp"


section \<open>Target model (\<^verbatim>\<open>schema.py\<close>, \<^verbatim>\<open>CREATE_DIM_*\<close>, \<^verbatim>\<open>CREATE_FACT_*\<close>)\<close>

text \<open>A row of a target table holds what the \<^verbatim>\<open>SELECT\<close> computes, so each column is
  nullable in the row type; the constraints of the table are checked by the
  \<^verbatim>\<open>INSERT\<close>. A \<^verbatim>\<open>DECIMAL\<close> is a rational.\<close>

record dim_customer =
  dc_customer_id :: varchar
  dc_name :: varchar
  dc_email :: varchar
  dc_age :: "int option"
  dc_city :: varchar
  dc_country :: varchar
  dc_favorite_team :: varchar
  dc_membership_tier :: varchar
  dc_signup_date :: "int option"
  dc_loaded_at :: "int option"

record fact_transaction =
  ft_transaction_id :: varchar
  ft_customer_id :: varchar
  ft_transaction_date :: "int option"
  ft_amount_eur :: "rat option"
  ft_category :: varchar
  ft_merchant :: varchar
  ft_source_row_id :: "int option"
  ft_loaded_at :: "int option"

record fact_post =
  fs_post_id :: varchar
  fs_user_name :: varchar
  fs_topic :: varchar
  fs_sentiment_score :: "rat option"
  fs_engagement :: "int option"
  fs_published_at :: "int option"
  fs_source_row_id :: "int option"
  fs_loaded_at :: "int option"

record profile =
  cp_customer_id :: varchar
  cp_txn_count :: "int option"
  cp_total_spend :: "rat option"
  cp_avg_txn :: "rat option"
  cp_last_txn_date :: "int option"
  cp_match_ticket_count :: "int option"
  cp_sports_affinity_ratio :: "rat option"
  cp_avg_days_between_txns :: "rat option"
  cp_loaded_at :: "int option"

text \<open>The store behind the connection: a table that has not been created is \<open>None\<close>,
  and a statement that names it fails.\<close>

record store =
  raw_customers :: "raw_customer list option"
  raw_transactions :: "raw_transaction list option"
  raw_sentiment :: "raw_post list option"
  dim_customers :: "dim_customer list option"
  fact_transactions :: "fact_transaction list option"
  fact_sentiment :: "fact_post list option"
  customer_profile :: "profile list option"

datatype db_error =
    CatalogError string
  | BinderError string
  | ConstraintError string
  | ConversionError string

text \<open>\<^verbatim>\<open>SELECT COUNT(*) FROM t\<close>.\<close>

definition count_star :: "string \<Rightarrow> 'r list option \<Rightarrow> db_error + nat" where
  "count_star name tbl = (case tbl of None \<Rightarrow> Inl (CatalogError name) | Some rows \<Rightarrow> Inr (length rows))"

section \<open>Transform engine (\<^verbatim>\<open>transforms.py\<close>, class \<^verbatim>\<open>DataTransformer\<close>)\<close>

text \<open>The transformer holds the connection and its report; an entry of
  \<^verbatim>\<open>report["steps"]\<close> is one of the three strings the code appends.\<close>

datatype step =
    Tables_created
  | Loaded string nat
  | Step_error string db_error

record transformer =
  conn :: store
  steps :: "step list"

subsection \<open>\<^verbatim>\<open>create_tables\<close>\<close>

text \<open>\<^verbatim>\<open>CREATE TABLE IF NOT EXISTS\<close>: a missing table is created empty, an existing one
  is left as it is.\<close>

definition create_if_not_exists :: "'r list option \<Rightarrow> 'r list option" where
  "create_if_not_exists tbl = (case tbl of None \<Rightarrow> Some [] | Some rows \<Rightarrow> Some rows)"

definition create_tables :: "transformer \<Rightarrow> transformer" where
  "create_tables t =
     t\<lparr>conn := (conn t)\<lparr>
          dim_customers := create_if_not_exists (dim_customers (conn t)),
          fact_transactions := create_if_not_exists (fact_transactions (conn t)),
          fact_sentiment := create_if_not_exists (fact_sentiment (conn t)),
          customer_profile := create_if_not_exists (customer_profile (conn t))\<rparr>,
       steps := steps t @ [Tables_created]\<rparr>"

subsection \<open>\<^verbatim>\<open>load_dim_customers\<close>\<close>

definition clean_customer :: "engine \<Rightarrow> raw_customer \<Rightarrow> dim_customer" where
  "clean_customer eng r =
     \<lparr>dc_customer_id = rc_customer_id r,
      dc_name = LOWER (TRIM (COALESCE (rc_name r) (Some ''Unknown''))),
      dc_email = LOWER (TRIM (rc_email r)),
      dc_age = try_cast_integer eng (rc_age r),
      dc_city = LOWER (TRIM (rc_city r)),
      dc_country = rc_country r,
      dc_favorite_team = LOWER (TRIM (rc_favorite_team r)),
      dc_membership_tier = LOWER (TRIM (rc_membership_tier r)),
      dc_signup_date = try_cast_date eng (rc_signup_date r),
      dc_loaded_at = Some (current_timestamp eng)\<rparr>"

definition select_dim_customers :: "engine \<Rightarrow> raw_customer list \<Rightarrow> dim_customer list" where
  "select_dim_customers eng raws = map (clean_customer eng) (deduped_customers raws)"

text \<open>The constraints of \<^verbatim>\<open>dim_customers\<close>: \<^verbatim>\<open>customer_id\<close> is the primary key,
  \<^verbatim>\<open>name\<close> is \<^verbatim>\<open>NOT NULL\<close>, and \<^verbatim>\<open>CHECK (age >= 0 AND age <= 150)\<close>, which a
  \<^verbatim>\<open>NULL\<close> age passes. A violation fails the whole statement: no row is inserted.\<close>

definition age_check :: "int option \<Rightarrow> bool" where
  "age_check a = (case a of None \<Rightarrow> True | Some n \<Rightarrow> 0 \<le> n \<and> n \<le> 150)"

definition insert_dim_customers :: "dim_customer list \<Rightarrow> dim_customer list \<Rightarrow> db_error + dim_customer list" where
  "insert_dim_customers new old =
     (if list_ex (\<lambda>r. dc_customer_id r = None \<or> dc_name r = None) new
        then Inl (ConstraintError ''NOT NULL'')
      else if list_ex (\<lambda>r. \<not> age_check (dc_age r)) new
        then Inl (ConstraintError ''CHECK'')
      else if \<not> distinct (map dc_customer_id (old @ new))
        then Inl (ConstraintError ''PRIMARY KEY'')
      else Inr (old @ new))"

definition exec_load_dim_customers :: "engine \<Rightarrow> store \<Rightarrow> db_error + store" where
  "exec_load_dim_customers eng st =
     (case dim_customers st of
        None \<Rightarrow> Inl (CatalogError ''dim_customers'')
      | Some old \<Rightarrow>
         (case raw_customers st of
            None \<Rightarrow> Inl (CatalogError ''raw_customers'')
          | Some raws \<Rightarrow>
             (case insert_dim_customers (select_dim_customers eng raws) old of
                Inl e \<Rightarrow> Inl e
              | Inr rows \<Rightarrow> Inr (st\<lparr>dim_customers := Some rows\<rparr>))))"

text \<open>The body of each loader is the same: run the statement, count the rows of the
  target, append the step; any exception of the two queries is caught and appended
  as an error step.\<close>

definition load_dim_customers :: "engine \<Rightarrow> transformer \<Rightarrow> transformer" where
  "load_dim_customers eng t =
     (case exec_load_dim_customers eng (conn t) of
        Inl e \<Rightarrow> t\<lparr>steps := steps t @ [Step_error ''dim_customers'' e]\<rparr>
      | Inr st \<Rightarrow>
         (case count_star ''dim_customers'' (dim_customers st) of
            Inl e \<Rightarrow> \<lparr>conn = st, steps = steps t @ [Step_error ''dim_customers'' e]\<rparr>
          | Inr n \<Rightarrow> \<lparr>conn = st, steps = steps t @ [Loaded ''dim_customers'' n]\<rparr>))"

subsection \<open>\<^verbatim>\<open>load_fact_transactions\<close>\<close>

text \<open>The \<^verbatim>\<open>WHERE\<close> clause casts the amount as it is stored; the \<^verbatim>\<open>SELECT\<close> list
  casts it after replacing commas.\<close>

definition where_fact_transactions :: "engine \<Rightarrow> dim_customer list \<Rightarrow> raw_transaction \<Rightarrow> bool" where
  "where_fact_transactions eng dcs r =
     (rt_customer_id r \<noteq> None
      \<and> is_true (sql_in (rt_customer_id r) (map dc_customer_id dcs))
      \<and> try_cast_decimal eng 10 2 (rt_amount r) \<noteq> None
      \<and> is_true (sql_less (Some (- 1000)) (try_cast_decimal eng 10 2 (rt_amount r)))
      \<and> is_true (sql_less (try_cast_decimal eng 10 2 (rt_amount r)) (Some 50000)))"

definition clean_transaction :: "engine \<Rightarrow> raw_transaction \<Rightarrow> fact_transaction" where
  "clean_transaction eng r =
     \<lparr>ft_transaction_id = rt_transaction_id r,
      ft_customer_id = rt_customer_id r,
      ft_transaction_date =
        COALESCE (try_cast_timestamp eng (rt_timestamp r)) (Some (current_timestamp eng)),
      ft_amount_eur = try_cast_decimal eng 10 2 (REPLACE_comma (rt_amount r)),
      ft_category = LOWER (TRIM (rt_category r)),
      ft_merchant = rt_merchant r,
      ft_source_row_id = Some (rt_row_id r),
      ft_loaded_at = Some (current_timestamp eng)\<rparr>"

definition select_fact_transactions ::
  "engine \<Rightarrow> dim_customer list \<Rightarrow> raw_transaction list \<Rightarrow> fact_transaction list" where
  "select_fact_transactions eng dcs raws =
     map (clean_transaction eng)
       (filter (where_fact_transactions eng dcs) (deduped_transactions raws))"

text \<open>The constraints of \<^verbatim>\<open>fact_transactions\<close>: primary key \<^verbatim>\<open>transaction_id\<close>, four
  \<^verbatim>\<open>NOT NULL\<close> columns, and the foreign key into \<^verbatim>\<open>dim_customers\<close>.\<close>

definition insert_fact_transactions ::
  "dim_customer list \<Rightarrow> fact_transaction list \<Rightarrow> fact_transaction list \<Rightarrow> db_error + fact_transaction list" where
  "insert_fact_transactions dcs new old =
     (if list_ex (\<lambda>r. ft_transaction_id r = None \<or> ft_customer_id r = None
                      \<or> ft_transaction_date r = None \<or> ft_amount_eur r = None
                      \<or> ft_category r = None) new
        then Inl (ConstraintError ''NOT NULL'')
      else if \<not> distinct (map ft_transaction_id (old @ new))
        then Inl (ConstraintError ''PRIMARY KEY'')
      else if list_ex (\<lambda>r. ft_customer_id r \<notin> set (map dc_customer_id dcs)) new
        then Inl (ConstraintError ''FOREIGN KEY'')
      else Inr (old @ new))"

definition exec_load_fact_transactions :: "engine \<Rightarrow> store \<Rightarrow> db_error + store" where
  "exec_load_fact_transactions eng st =
     (case fact_transactions st of
        None \<Rightarrow> Inl (CatalogError ''fact_transactions'')
      | Some old \<Rightarrow>
         (case raw_transactions st of
            None \<Rightarrow> Inl (CatalogError ''raw_transactions'')
          | Some raws \<Rightarrow>
             (case dim_customers st of
                None \<Rightarrow> Inl (CatalogError ''dim_customers'')
              | Some dcs \<Rightarrow>
                 (case insert_fact_transactions dcs (select_fact_transactions eng dcs raws) old of
                    Inl e \<Rightarrow> Inl e
                  | Inr rows \<Rightarrow> Inr (st\<lparr>fact_transactions := Some rows\<rparr>)))))"

definition load_fact_transactions :: "engine \<Rightarrow> transformer \<Rightarrow> transformer" where
  "load_fact_transactions eng t =
     (case exec_load_fact_transactions eng (conn t) of
        Inl e \<Rightarrow> t\<lparr>steps := steps t @ [Step_error ''fact_transactions'' e]\<rparr>
      | Inr st \<Rightarrow>
         (case count_star ''fact_transactions'' (fact_transactions st) of
            Inl e \<Rightarrow> \<lparr>conn = st, steps = steps t @ [Step_error ''fact_transactions'' e]\<rparr>
          | Inr n \<Rightarrow> \<lparr>conn = st, steps = steps t @ [Loaded ''fact_transactions'' n]\<rparr>))"

subsection \<open>\<^verbatim>\<open>load_fact_sentiment\<close>\<close>

definition select_fact_sentiment :: "engine \<Rightarrow> raw_post list \<Rightarrow> fact_post list" where
  "select_fact_sentiment eng raws =
     map (\<lambda>r. \<lparr>fs_post_id = rs_id r,
               fs_user_name = LOWER (TRIM (rs_user r)),
               fs_topic = LOWER (TRIM (rs_topic r)),
               fs_sentiment_score = try_cast_decimal eng 3 2 (rs_sentiment_score r),
               fs_engagement = try_cast_integer eng (rs_engagement r),
               fs_published_at = try_cast_timestamp eng (rs_published_at r),
               fs_source_row_id = Some (rs_row_id r),
               fs_loaded_at = Some (current_timestamp eng)\<rparr>)
       (filter (\<lambda>r. rs_id r \<noteq> None) (deduped_sentiment raws))"

definition insert_fact_sentiment :: "fact_post list \<Rightarrow> fact_post list \<Rightarrow> db_error + fact_post list" where
  "insert_fact_sentiment new old =
     (if list_ex (\<lambda>r. fs_post_id r = None) new
        then Inl (ConstraintError ''NOT NULL'')
      else if \<not> distinct (map fs_post_id (old @ new))
        then Inl (ConstraintError ''PRIMARY KEY'')
      else Inr (old @ new))"

definition exec_load_fact_sentiment :: "engine \<Rightarrow> store \<Rightarrow> db_error + store" where
  "exec_load_fact_sentiment eng st =
     (case fact_sentiment st of
        None \<Rightarrow> Inl (CatalogError ''fact_sentiment'')
      | Some old \<Rightarrow>
         (case raw_sentiment st of
            None \<Rightarrow> Inl (CatalogError ''raw_sentiment'')
          | Some raws \<Rightarrow>
             (case insert_fact_sentiment (select_fact_sentiment eng raws) old of
                Inl e \<Rightarrow> Inl e
              | Inr rows \<Rightarrow> Inr (st\<lparr>fact_sentiment := Some rows\<rparr>))))"

definition load_fact_sentiment :: "engine \<Rightarrow> transformer \<Rightarrow> transformer" where
  "load_fact_sentiment eng t =
     (case exec_load_fact_sentiment eng (conn t) of
        Inl e \<Rightarrow> t\<lparr>steps := steps t @ [Step_error ''fact_sentiment'' e]\<rparr>
      | Inr st \<Rightarrow>
         (case count_star ''fact_sentiment'' (fact_sentiment st) of
            Inl e \<Rightarrow> \<lparr>conn = st, steps = steps t @ [Step_error ''fact_sentiment'' e]\<rparr>
          | Inr n \<Rightarrow> \<lparr>conn = st, steps = steps t @ [Loaded ''fact_sentiment'' n]\<rparr>))"


subsection \<open>\<^verbatim>\<open>load_customer_profile\<close>\<close>

text \<open>\<^verbatim>\<open>FROM dim_customers c LEFT JOIN fact_transactions t ON c.customer_id = t.customer_id\<close>:
  a customer without a matching transaction is kept once, with every column of
  \<open>t\<close> \<^verbatim>\<open>NULL\<close>.\<close>

type_synonym joined = "dim_customer \<times> fact_transaction option"

definition left_join :: "dim_customer list \<Rightarrow> fact_transaction list \<Rightarrow> joined list" where
  "left_join dcs fts =
     concat (map (\<lambda>c.
        (let ms = filter (\<lambda>t. is_true (sql_eq (dc_customer_id c) (ft_customer_id t))) fts
         in if ms = [] then [(c, None)] else map (\<lambda>t. (c, Some t)) ms)) dcs)"

definition t_col :: "(fact_transaction \<Rightarrow> 'a option) \<Rightarrow> joined \<Rightarrow> 'a option" where
  "t_col f j = (case snd j of None \<Rightarrow> None | Some t \<Rightarrow> f t)"

text \<open>Aggregates skip \<^verbatim>\<open>NULL\<close>; over no value at all, \<^verbatim>\<open>COUNT\<close> is 0 and the others
  are \<^verbatim>\<open>NULL\<close>.\<close>

definition non_null :: "'a option list \<Rightarrow> 'a list" where
  "non_null xs = concat (map (\<lambda>x. case x of None \<Rightarrow> [] | Some v \<Rightarrow> [v]) xs)"

definition count_distinct :: "'a option list \<Rightarrow> int" where
  "count_distinct xs = int (length (remdups (non_null xs)))"

definition sql_sum :: "rat option list \<Rightarrow> rat option" where
  "sql_sum xs = (if non_null xs = [] then None else Some (sum_list (non_null xs)))"

definition sql_avg :: "rat option list \<Rightarrow> rat option" where
  "sql_avg xs =
     (if non_null xs = [] then None
      else Some (sum_list (non_null xs) / of_nat (length (non_null xs))))"

definition sql_max :: "'a::linorder option list \<Rightarrow> 'a option" where
  "sql_max xs = (case non_null xs of [] \<Rightarrow> None | v # vs \<Rightarrow> Some (fold max vs v))"

definition sql_min :: "'a::linorder option list \<Rightarrow> 'a option" where
  "sql_min xs = (case non_null xs of [] \<Rightarrow> None | v # vs \<Rightarrow> Some (fold min vs v))"

text \<open>Scalar functions. The store divides in double precision; the model divides
  exactly. A division is \<^verbatim>\<open>NULL\<close> when an operand is; what it gives on a divisor 0
  is not modelled (HOL's \<open>x / 0 = 0\<close> stands there), so that the guard
  \<^verbatim>\<open>NULLIF(..., 0)\<close> is what keeps 0 away from the divisor.\<close>

definition NULLIF :: "int \<Rightarrow> int \<Rightarrow> int option" where
  "NULLIF a b = (if a = b then None else Some a)"

definition sql_div :: "rat option \<Rightarrow> int option \<Rightarrow> rat option" where
  "sql_div a b =
     (case a of None \<Rightarrow> None
      | Some x \<Rightarrow> (case b of None \<Rightarrow> None | Some y \<Rightarrow> Some (x / of_int y)))"

definition sql_minus :: "int option \<Rightarrow> int option \<Rightarrow> int option" where
  "sql_minus a b =
     (case a of None \<Rightarrow> None
      | Some x \<Rightarrow> (case b of None \<Rightarrow> None | Some y \<Rightarrow> Some (x - y)))"

definition sql_round :: "nat \<Rightarrow> rat option \<Rightarrow> rat option" where
  "sql_round d x =
     map_option (\<lambda>v. sgn v * of_int \<lfloor>\<bar>v\<bar> * 10 ^ d + 1 / 2\<rfloor> / 10 ^ d) x"

fun starts_with :: "string \<Rightarrow> string \<Rightarrow> bool" where
  "starts_with [] s = True"
| "starts_with (p # ps) [] = False"
| "starts_with (p # ps) (c # cs) = (p = c \<and> starts_with ps cs)"

fun contains_str :: "string \<Rightarrow> string \<Rightarrow> bool" where
  "contains_str p [] = (p = [])"
| "contains_str p (c # cs) = (starts_with p (c # cs) \<or> contains_str p cs)"

text \<open>\<^verbatim>\<open>category LIKE '%sports%'\<close>.\<close>

definition like_sports :: "varchar \<Rightarrow> bool option" where
  "like_sports v = map_option (contains_str ''sports'') v"

text \<open>The aggregates of one group of joined rows. \<open>txn_count\<close> is
  \<^verbatim>\<open>COUNT(DISTINCT t.transaction_id)\<close>; a \<^verbatim>\<open>CASE WHEN c THEN x END\<close> is \<^verbatim>\<open>NULL\<close> unless
  \<open>c\<close> is true.\<close>

definition txn_count :: "joined list \<Rightarrow> int" where
  "txn_count js = count_distinct (map (t_col ft_transaction_id) js)"

definition match_ticket_count :: "joined list \<Rightarrow> int" where
  "match_ticket_count js =
     count_distinct (map (\<lambda>j.
        if is_true (sql_eq (t_col ft_category j) (Some ''match_tickets''))
        then t_col ft_transaction_id j else None) js)"

definition sports_count :: "joined list \<Rightarrow> int" where
  "sports_count js =
     count_distinct (map (\<lambda>j.
        if is_true (like_sports (t_col ft_category j))
           \<or> is_true (sql_eq (t_col ft_category j) (Some ''match_tickets''))
        then t_col ft_transaction_id j else None) js)"

definition ratio_divisor :: "joined list \<Rightarrow> int option" where
  "ratio_divisor js = NULLIF (txn_count js) 0"

definition sports_affinity_ratio :: "joined list \<Rightarrow> rat option" where
  "sports_affinity_ratio js =
     sql_round 2 (sql_div (Some (of_int (sports_count js))) (ratio_divisor js))"

definition txn_dates :: "joined list \<Rightarrow> int option list" where
  "txn_dates js = map (\<lambda>j. DATE (t_col ft_transaction_date j)) js"

definition days_divisor :: "joined list \<Rightarrow> int option" where
  "days_divisor js = NULLIF (txn_count js - 1) 0"

definition avg_days_between_txns :: "joined list \<Rightarrow> rat option" where
  "avg_days_between_txns js =
     sql_round 1
       (sql_div (map_option of_int (sql_minus (sql_max (txn_dates js)) (sql_min (txn_dates js))))
                (days_divisor js))"

definition profile_row :: "engine \<Rightarrow> varchar \<Rightarrow> joined list \<Rightarrow> profile" where
  "profile_row eng g js =
     \<lparr>cp_customer_id = g,
      cp_txn_count = Some (txn_count js),
      cp_total_spend = sql_round 2 (sql_sum (map (t_col ft_amount_eur) js)),
      cp_avg_txn = sql_round 2 (sql_avg (map (t_col ft_amount_eur) js)),
      cp_last_txn_date = sql_max (txn_dates js),
      cp_match_ticket_count = Some (match_ticket_count js),
      cp_sports_affinity_ratio = sports_affinity_ratio js,
      cp_avg_days_between_txns = avg_days_between_txns js,
      cp_loaded_at = Some (current_timestamp eng)\<rparr>"

text \<open>\<^verbatim>\<open>GROUP BY c.customer_id\<close>: one group for each distinct value of the column.\<close>

definition group_of :: "varchar \<Rightarrow> joined list \<Rightarrow> joined list" where
  "group_of g js = filter (\<lambda>j. dc_customer_id (fst j) = g) js"

definition select_customer_profile ::
  "engine \<Rightarrow> dim_customer list \<Rightarrow> fact_transaction list \<Rightarrow> profile list" where
  "select_customer_profile eng dcs fts =
     map (\<lambda>g. profile_row eng g (group_of g (left_join dcs fts)))
       (remdups (map (\<lambda>j. dc_customer_id (fst j)) (left_join dcs fts)))"

text \<open>The constraints of \<^verbatim>\<open>customer_profile\<close>: primary key \<^verbatim>\<open>customer_id\<close>, and each
  decimal column holds only values below its precision (the values are rounded to
  the scale of their column already); a value that does not fit fails the whole
  statement.\<close>

definition decimal_fits :: "nat \<Rightarrow> nat \<Rightarrow> rat option \<Rightarrow> bool" where
  "decimal_fits p k x = (case x of None \<Rightarrow> True | Some v \<Rightarrow> \<bar>v\<bar> < 10 ^ (p - k))"

definition profile_fits :: "profile \<Rightarrow> bool" where
  "profile_fits r =
     (decimal_fits 10 2 (cp_total_spend r)
      \<and> decimal_fits 10 2 (cp_avg_txn r)
      \<and> decimal_fits 3 2 (cp_sports_affinity_ratio r)
      \<and> decimal_fits 5 1 (cp_avg_days_between_txns r))"

definition insert_customer_profile :: "profile list \<Rightarrow> profile list \<Rightarrow> db_error + profile list" where
  "insert_customer_profile new old =
     (if list_ex (\<lambda>r. cp_customer_id r = None) new
        then Inl (ConstraintError ''NOT NULL'')
      else if \<not> distinct (map cp_customer_id (old @ new))
        then Inl (ConstraintError ''PRIMARY KEY'')
      else if list_ex (\<lambda>r. \<not> profile_fits r) new
        then Inl (ConversionError ''DECIMAL'')
      else Inr (old @ new))"

definition exec_load_customer_profile :: "engine \<Rightarrow> store \<Rightarrow> db_error + store" where
  "exec_load_customer_profile eng st =
     (case customer_profile st of
        None \<Rightarrow> Inl (CatalogError ''customer_profile'')
      | Some old \<Rightarrow>
         (case dim_customers st of
            None \<Rightarrow> Inl (CatalogError ''dim_customers'')
          | Some dcs \<Rightarrow>
             (case fact_transactions st of
                None \<Rightarrow> Inl (CatalogError ''fact_transactions'')
              | Some fts \<Rightarrow>
                 (case insert_customer_profile (select_customer_profile eng dcs fts) old of
                    Inl e \<Rightarrow> Inl e
                  | Inr rows \<Rightarrow> Inr (st\<lparr>customer_profile := Some rows\<rparr>)))))"

definition load_customer_profile :: "engine \<Rightarrow> transformer \<Rightarrow> transformer" where
  "load_customer_profile eng t =
     (case exec_load_customer_profile eng (conn t) of
        Inl e \<Rightarrow> t\<lparr>steps := steps t @ [Step_error ''customer_profile'' e]\<rparr>
      | Inr st \<Rightarrow>
         (case count_star ''customer_profile'' (customer_profile st) of
            Inl e \<Rightarrow> \<lparr>conn = st, steps = steps t @ [Step_error ''customer_profile'' e]\<rparr>
          | Inr n \<Rightarrow> \<lparr>conn = st, steps = steps t @ [Loaded ''customer_profile'' n]\<rparr>))"

subsection \<open>\<^verbatim>\<open>transform_all\<close>\<close>

text \<open>The five steps in the order of the code. The result is the transformer after
  the run: its \<open>steps\<close> are the report that the code returns, its \<open>conn\<close> the store.\<close>

definition transform_all :: "engine \<Rightarrow> transformer \<Rightarrow> transformer" where
  "transform_all eng t =
     load_customer_profile eng
       (load_fact_sentiment eng
         (load_fact_transactions eng
           (load_dim_customers eng
             (create_tables t))))"

text \<open>\<^verbatim>\<open>DataTransformer()\<close> on a store.\<close>

definition new_transformer :: "store \<Rightarrow> transformer" where
  "new_transformer st = \<lparr>conn = st, steps = []\<rparr>"


section \<open>Validation engine (\<^verbatim>\<open>validation.py\<close>, class \<^verbatim>\<open>DataValidator\<close>)\<close>

text \<open>The generic checks name a table and a column by strings, so they see a table
  as a list of column names and rows of cells.\<close>

datatype cell = Null | Text string | Number rat

record table_view =
  tv_columns :: "string list"
  tv_rows :: "cell list list"

definition vc :: "varchar \<Rightarrow> cell" where
  "vc v = (case v of None \<Rightarrow> Null | Some s \<Rightarrow> Text s)"

definition ic :: "int option \<Rightarrow> cell" where
  "ic v = (case v of None \<Rightarrow> Null | Some n \<Rightarrow> Number (of_int n))"

definition qc :: "rat option \<Rightarrow> cell" where
  "qc v = (case v of None \<Rightarrow> Null | Some q \<Rightarrow> Number q)"

definition view_raw_customers :: "raw_customer list \<Rightarrow> table_view" where
  "view_raw_customers rows =
     \<lparr>tv_columns = [''_row_id'', ''customer_id'', ''name'', ''email'', ''age'', ''city'',
                    ''country'', ''signup_date'', ''favorite_team'', ''membership_tier'',
                    ''gender'', ''_load_timestamp''],
      tv_rows = map (\<lambda>r. [ic (Some (rc_row_id r)), vc (rc_customer_id r), vc (rc_name r),
                           vc (rc_email r), vc (rc_age r), vc (rc_city r), vc (rc_country r),
                           vc (rc_signup_date r), vc (rc_favorite_team r),
                           vc (rc_membership_tier r), vc (rc_gender r),
                           ic (Some (rc_load_timestamp r))]) rows\<rparr>"

definition view_raw_transactions :: "raw_transaction list \<Rightarrow> table_view" where
  "view_raw_transactions rows =
     \<lparr>tv_columns = [''_row_id'', ''transaction_id'', ''customer_id'', ''timestamp'', ''amount'',
                    ''currency'', ''category'', ''merchant'', ''description'',
                    ''_load_timestamp''],
      tv_rows = map (\<lambda>r. [ic (Some (rt_row_id r)), vc (rt_transaction_id r),
                           vc (rt_customer_id r), vc (rt_timestamp r), vc (rt_amount r),
                           vc (rt_currency r), vc (rt_category r), vc (rt_merchant r),
                           vc (rt_description r), ic (Some (rt_load_timestamp r))]) rows\<rparr>"

definition view_raw_sentiment :: "raw_post list \<Rightarrow> table_view" where
  "view_raw_sentiment rows =
     \<lparr>tv_columns = [''_row_id'', ''id'', ''user'', ''source'', ''text'', ''published_at'',
                    ''topic'', ''tags'', ''sentiment_score'', ''engagement'',
                    ''_load_timestamp''],
      tv_rows = map (\<lambda>r. [ic (Some (rs_row_id r)), vc (rs_id r), vc (rs_user r),
                           vc (rs_source r), vc (rs_text r), vc (rs_published_at r),
                           vc (rs_topic r), vc (rs_tags r), vc (rs_sentiment_score r),
                           vc (rs_engagement r), ic (Some (rs_load_timestamp r))]) rows\<rparr>"

definition view_dim_customers :: "dim_customer list \<Rightarrow> table_view" where
  "view_dim_customers rows =
     \<lparr>tv_columns = [''customer_id'', ''name'', ''email'', ''age'', ''city'', ''country'',
                    ''favorite_team'', ''membership_tier'', ''signup_date'', ''_loaded_at''],
      tv_rows = map (\<lambda>r. [vc (dc_customer_id r), vc (dc_name r), vc (dc_email r),
                           ic (dc_age r), vc (dc_city r), vc (dc_country r),
                           vc (dc_favorite_team r), vc (dc_membership_tier r),
                           ic (dc_signup_date r), ic (dc_loaded_at r)]) rows\<rparr>"

definition view_fact_transactions :: "fact_transaction list \<Rightarrow> table_view" where
  "view_fact_transactions rows =
     \<lparr>tv_columns = [''transaction_id'', ''customer_id'', ''transaction_date'', ''amount_eur'',
                    ''category'', ''merchant'', ''_source_row_id'', ''_loaded_at''],
      tv_rows = map (\<lambda>r. [vc (ft_transaction_id r), vc (ft_customer_id r),
                           ic (ft_transaction_date r), qc (ft_amount_eur r),
                           vc (ft_category r), vc (ft_merchant r),
                           ic (ft_source_row_id r), ic (ft_loaded_at r)]) rows\<rparr>"

definition view_fact_sentiment :: "fact_post list \<Rightarrow> table_view" where
  "view_fact_sentiment rows =
     \<lparr>tv_columns = [''post_id'', ''user_name'', ''topic'', ''sentiment_score'', ''engagement'',
                    ''published_at'', ''_source_row_id'', ''_loaded_at''],
      tv_rows = map (\<lambda>r. [vc (fs_post_id r), vc (fs_user_name r), vc (fs_topic r),
                           qc (fs_sentiment_score r), ic (fs_engagement r),
                           ic (fs_published_at r), ic (fs_source_row_id r),
                           ic (fs_loaded_at r)]) rows\<rparr>"

definition view_customer_profile :: "profile list \<Rightarrow> table_view" where
  "view_customer_profile rows =
     \<lparr>tv_columns = [''customer_id'', ''txn_count'', ''total_spend'', ''avg_txn'',
                    ''last_txn_date'', ''match_ticket_count'', ''sports_affinity_ratio'',
                    ''avg_days_between_txns'', ''_loaded_at''],
      tv_rows = map (\<lambda>r. [vc (cp_customer_id r), ic (cp_txn_count r), qc (cp_total_spend r),
                           qc (cp_avg_txn r), ic (cp_last_txn_date r),
                           ic (cp_match_ticket_count r), qc (cp_sports_affinity_ratio r),
                           qc (cp_avg_days_between_txns r), ic (cp_loaded_at r)]) rows\<rparr>"

definition lookup_table :: "store \<Rightarrow> string \<Rightarrow> table_view option" where
  "lookup_table st name =
     (if name = ''raw_customers'' then map_option view_raw_customers (raw_customers st)
      else if name = ''raw_transactions'' then map_option view_raw_transactions (raw_transactions st)
      else if name = ''raw_sentiment'' then map_option view_raw_sentiment (raw_sentiment st)
      else if name = ''dim_customers'' then map_option view_dim_customers (dim_customers st)
      else if name = ''fact_transactions'' then map_option view_fact_transactions (fact_transactions st)
      else if name = ''fact_sentiment'' then map_option view_fact_sentiment (fact_sentiment st)
      else if name = ''customer_profile'' then map_option view_customer_profile (customer_profile st)
      else None)"

subsection \<open>Python's float division and the threshold \<^verbatim>\<open>NULL_RATE_WARNING = 0.3\<close>\<close>

text \<open>
  \<^verbatim>\<open>null_count / row_count\<close> divides two integers into a double: the quotient,
  rounded to the nearest number with a 53-bit significand, ties to the even
  significand. A double is modelled by the rational it denotes. \<open>binary_exponent a b\<close>
  is the \<open>e\<close> with \<open>2\<^sup>e \<le> a / b < 2\<^sup>e\<^sup>+\<^sup>1\<close>. (Counts are far inside the range of
  normal doubles, so neither overflow nor gradual underflow is modelled.) The
  literal \<^verbatim>\<open>0.3\<close> of \<^verbatim>\<open>config.py\<close> is the double nearest to \<open>3 / 10\<close>.
\<close>

datatype py_exception = DbError db_error | ZeroDivisionError

definition round_half_even :: "rat \<Rightarrow> int" where
  "round_half_even x =
     (let f = \<lfloor>x\<rfloor>; d = x - of_int f
      in if d < 1 / 2 then f
         else if 1 / 2 < d then f + 1
         else if even f then f else f + 1)"

definition binary_exponent :: "nat \<Rightarrow> nat \<Rightarrow> int" where
  "binary_exponent a b =
     (let la = floorlog 2 a; lb = floorlog 2 b
      in if b * 2 ^ la \<le> a * 2 ^ lb then int la - int lb else int la - int lb - 1)"

definition float_of_ratio :: "nat \<Rightarrow> nat \<Rightarrow> rat" where
  "float_of_ratio a b =
     (if a = 0 then 0
      else of_int (round_half_even (of_nat a / of_nat b * 2 powi (52 - binary_exponent a b)))
             * 2 powi (binary_exponent a b - 52))"

definition py_truediv :: "nat \<Rightarrow> nat \<Rightarrow> py_exception + rat" where
  "py_truediv a b = (if b = 0 then Inl ZeroDivisionError else Inr (float_of_ratio a b))"

definition NULL_RATE_WARNING :: rat where
  "NULL_RATE_WARNING = float_of_ratio 3 10"

subsection \<open>\<^verbatim>\<open>_validate_table\<close>\<close>

text \<open>An entry of \<^verbatim>\<open>high_null_columns\<close>; its \<^verbatim>\<open>warning\<close> string is a rendering of the
  rate and is left out.\<close>

record high_null =
  hn_null_count :: nat
  hn_null_rate :: rat

datatype table_result =
    Table_error py_exception
  | Table_profile nat "string list" "(string \<times> high_null) list"

text \<open>\<^verbatim>\<open>SELECT COUNT(*) FROM t WHERE col IS NULL\<close>.\<close>

definition null_count :: "table_view \<Rightarrow> string \<Rightarrow> nat" where
  "null_count tv col =
     length (filter (\<lambda>r. map_of (zip (tv_columns tv) r) col = Some Null) (tv_rows tv))"

text \<open>\<^verbatim>\<open>null_pct = null_count / row_count if row_count > 0 else 0\<close>.\<close>

definition null_pct :: "nat \<Rightarrow> nat \<Rightarrow> py_exception + rat" where
  "null_pct n row_count = (if row_count > 0 then py_truediv n row_count else Inr 0)"

text \<open>The loop over the columns; a column whose name starts with an underscore is
  skipped.\<close>

fun null_rates :: "table_view \<Rightarrow> nat \<Rightarrow> string list \<Rightarrow> py_exception + (string \<times> high_null) list" where
  "null_rates tv row_count [] = Inr []"
| "null_rates tv row_count (col # cols) =
     (if starts_with ''_'' col then null_rates tv row_count cols
      else
        (case null_pct (null_count tv col) row_count of
           Inl e \<Rightarrow> Inl e
         | Inr pct \<Rightarrow>
            (case null_rates tv row_count cols of
               Inl e \<Rightarrow> Inl e
             | Inr rest \<Rightarrow>
                 Inr (if pct > NULL_RATE_WARNING
                      then (col, \<lparr>hn_null_count = null_count tv col, hn_null_rate = pct\<rparr>) # rest
                      else rest))))"

definition validate_table :: "store \<Rightarrow> string \<Rightarrow> table_result" where
  "validate_table st table_name =
     (case lookup_table st table_name of
        None \<Rightarrow> Table_error (DbError (CatalogError table_name))
      | Some tv \<Rightarrow>
         (case null_rates tv (length (tv_rows tv)) (tv_columns tv) of
            Inl e \<Rightarrow> Table_error e
          | Inr rates \<Rightarrow> Table_profile (length (tv_rows tv)) (tv_columns tv) rates))"

subsection \<open>\<^verbatim>\<open>_find_duplicates\<close>\<close>

datatype dup_result =
    Dup_error py_exception
  | Dup_none
  | Dup_found nat "(cell \<times> nat) list"

definition find_duplicates :: "store \<Rightarrow> string \<Rightarrow> string \<Rightarrow> dup_result" where
  "find_duplicates st table_name key_col =
     (case lookup_table st table_name of
        None \<Rightarrow> Dup_error (DbError (CatalogError table_name))
      | Some tv \<Rightarrow>
         (if key_col \<notin> set (tv_columns tv) then Dup_error (DbError (BinderError key_col))
          else
            (let keys = filter (\<lambda>c. c \<noteq> Null)
                          (map (\<lambda>r. case map_of (zip (tv_columns tv) r) key_col of
                                       None \<Rightarrow> Null | Some c \<Rightarrow> c) (tv_rows tv));
                 groups = map (\<lambda>k. (k, count_list keys k)) (remdups keys);
                 result = sort_key (\<lambda>g. - int (snd g)) (filter (\<lambda>g. snd g > 1) groups)
             in if result \<noteq> [] then Dup_found (length result) result else Dup_none)))"

subsection \<open>\<^verbatim>\<open>_find_orphan_keys\<close> and \<^verbatim>\<open>_check_foreign_keys\<close>\<close>

datatype orphan_result =
    Orphan_error py_exception
  | Orphan_report bool nat string

text \<open>The result \<open>Orphan_report found count note\<close> holds the three keys of the
  dictionary.\<close>

definition where_orphan :: "raw_customer list \<Rightarrow> raw_transaction \<Rightarrow> bool" where
  "where_orphan cs t =
     (rt_customer_id t \<noteq> None
      \<and> is_true (sql_not_in (rt_customer_id t) (map rc_customer_id cs)))"

definition find_orphan_keys :: "store \<Rightarrow> orphan_result" where
  "find_orphan_keys st =
     (case raw_transactions st of
        None \<Rightarrow> Orphan_error (DbError (CatalogError ''raw_transactions''))
      | Some ts \<Rightarrow>
         (case raw_customers st of
            None \<Rightarrow> Orphan_error (DbError (CatalogError ''raw_customers''))
          | Some cs \<Rightarrow>
             (let orphans = length (filter (where_orphan cs) ts)
              in Orphan_report (orphans > 0) orphans
                   (if orphans > 0 then ''Transactions with non-existent customer_id''
                    else ''None''))))"

datatype fk_result =
    Fk_error py_exception
  | Fk_report bool nat

text \<open>The result \<open>Fk_report valid orphan_count\<close>; the \<^verbatim>\<open>note\<close> is a rendering of the
  count and is left out.\<close>

definition check_foreign_keys :: "store \<Rightarrow> fk_result" where
  "check_foreign_keys st =
     (case fact_transactions st of
        None \<Rightarrow> Fk_error (DbError (CatalogError ''fact_transactions''))
      | Some fts \<Rightarrow>
         (case dim_customers st of
            None \<Rightarrow> Fk_error (DbError (CatalogError ''dim_customers''))
          | Some dcs \<Rightarrow>
             (let orphans = length (filter (\<lambda>t.
                                is_true (sql_not_in (ft_customer_id t) (map dc_customer_id dcs))) fts)
              in Fk_report (orphans = 0) orphans)))"

subsection \<open>\<^verbatim>\<open>validate_raw_data\<close> and \<^verbatim>\<open>validate_transformed_data\<close>\<close>

record raw_validation =
  rv_customers :: table_result
  rv_customers_duplicates :: dup_result
  rv_transactions :: table_result
  rv_transactions_duplicates :: dup_result
  rv_transactions_orphan_keys :: orphan_result
  rv_sentiment :: table_result
  rv_sentiment_duplicates :: dup_result

definition validate_raw_data :: "store \<Rightarrow> raw_validation" where
  "validate_raw_data st =
     \<lparr>rv_customers = validate_table st ''raw_customers'',
      rv_customers_duplicates = find_duplicates st ''raw_customers'' ''customer_id'',
      rv_transactions = validate_table st ''raw_transactions'',
      rv_transactions_duplicates = find_duplicates st ''raw_transactions'' ''transaction_id'',
      rv_transactions_orphan_keys = find_orphan_keys st,
      rv_sentiment = validate_table st ''raw_sentiment'',
      rv_sentiment_duplicates = find_duplicates st ''raw_sentiment'' ''id''\<rparr>"

record transformed_validation =
  tv_dim_customers :: table_result
  tv_customer_id_unique :: bool
  tv_fact_transactions :: table_result
  tv_referential_integrity :: fk_result
  tv_customer_profile :: table_result

text \<open>The two queries of the uniqueness check run in the body of
  \<^verbatim>\<open>validate_transformed_data\<close> itself, outside any \<^verbatim>\<open>try\<close>: their exception is the
  exception of the call (\<open>Inl\<close>).\<close>

definition validate_transformed_data :: "store \<Rightarrow> py_exception + transformed_validation" where
  "validate_transformed_data st =
     (let dim_result = validate_table st ''dim_customers'';
          fact_result = validate_table st ''fact_transactions'';
          profile_result = validate_table st ''customer_profile'';
          integrity = check_foreign_keys st
      in case count_star ''dim_customers'' (dim_customers st) of
           Inl e \<Rightarrow> Inl (DbError e)
         | Inr row_total \<Rightarrow>
            (case dim_customers st of
               None \<Rightarrow> Inl (DbError (CatalogError ''dim_customers''))
             | Some dcs \<Rightarrow>
                 Inr \<lparr>tv_dim_customers = dim_result,
                      tv_customer_id_unique =
                        (int row_total = count_distinct (map dc_customer_id dcs)),
                      tv_fact_transactions = fact_result,
                      tv_referential_integrity = integrity,
                      tv_customer_profile = profile_result\<rparr>))"


section \<open>Notions used to state the properties\<close>

text \<open>A run "on empty target tables": each target table is missing or empty.\<close>

definition target_empty :: "'r list option \<Rightarrow> bool" where
  "target_empty tbl = (case tbl of None \<Rightarrow> True | Some rows \<Rightarrow> rows = [])"

definition targets_empty :: "store \<Rightarrow> bool" where
  "targets_empty st =
     (target_empty (dim_customers st) \<and> target_empty (fact_transactions st)
      \<and> target_empty (fact_sentiment st) \<and> target_empty (customer_profile st))"

text \<open>What such a run leaves in \<^verbatim>\<open>dim_customers\<close>, \<^verbatim>\<open>fact_transactions\<close> and
  \<^verbatim>\<open>customer_profile\<close> (lemma \<open>transform_all_tables\<close> below): the selected rows, or
  nothing when a staging table is missing or the \<^verbatim>\<open>INSERT\<close> fails.\<close>

definition dim_loaded :: "engine \<Rightarrow> store \<Rightarrow> dim_customer list" where
  "dim_loaded eng st =
     (case raw_customers st of None \<Rightarrow> []
      | Some raws \<Rightarrow> (case insert_dim_customers (select_dim_customers eng raws) [] of
                      Inl e \<Rightarrow> [] | Inr rows \<Rightarrow> rows))"

definition fact_loaded :: "engine \<Rightarrow> store \<Rightarrow> fact_transaction list" where
  "fact_loaded eng st =
     (case raw_transactions st of None \<Rightarrow> []
      | Some raws \<Rightarrow>
         (case insert_fact_transactions (dim_loaded eng st)
                 (select_fact_transactions eng (dim_loaded eng st) raws) [] of
            Inl e \<Rightarrow> [] | Inr rows \<Rightarrow> rows))"

definition profile_loaded :: "engine \<Rightarrow> store \<Rightarrow> profile list" where
  "profile_loaded eng st =
     (case insert_customer_profile
             (select_customer_profile eng (dim_loaded eng st) (fact_loaded eng st)) [] of
        Inl e \<Rightarrow> [] | Inr rows \<Rightarrow> rows)"

text \<open>What the properties of the fact loader need of the store's cast to
  \<^verbatim>\<open>DECIMAL(10, 2)\<close>: it reads no string that contains a comma, and it reads the two
  literals at the upper bound as the numbers they denote.\<close>

definition reads_no_comma :: "engine \<Rightarrow> bool" where
  "reads_no_comma eng = (\<forall>s a. cast_decimal eng 10 2 s = Some a \<longrightarrow> CHR '','' \<notin> set s)"

definition reads_bound_literals :: "engine \<Rightarrow> bool" where
  "reads_bound_literals eng =
     (cast_decimal eng 10 2 ''50000'' = Some 50000
      \<and> cast_decimal eng 10 2 ''49999.99'' = Some (4999999 / 100))"

text \<open>The null rate of a column as an exact fraction, 0 for a table without rows.\<close>

definition null_rate :: "table_view \<Rightarrow> string \<Rightarrow> rat" where
  "null_rate tv col =
     (if length (tv_rows tv) = 0 then 0
      else of_nat (null_count tv col) / of_nat (length (tv_rows tv)))"

section \<open>Fixtures\<close>

text \<open>The fixture engine holds the values of the casts on the strings that occur in
  the fixtures and reads no other string. Then builders for staging rows and for a
  store that holds staging tables only.\<close>

definition fx_engine :: engine where
  "fx_engine =
     \<lparr>cast_integer = map_of [(''33'', 33), (''41'', 41), (''27'', 27), (''200'', 200)],
      cast_decimal = (\<lambda>p k s.
         case map_of [(''50000'', 50000), (''49999.99'', 4999999 / 100),
                      (''1234.56'', 123456 / 100), (''12.50'', 25 / 2), (''30'', 30),
                      (''8.25'', 33 / 4)] s of
           None \<Rightarrow> None
         | Some v \<Rightarrow> if \<bar>v\<bar> < 10 ^ (p - k) then Some v else None),
      cast_date = map_of [(''2021-03-04'', 18690)],
      cast_timestamp = map_of [(''2024-01-01 10:00:00'', 1704103200000000),
                              (''1990-01-01 10:00:00'', 631188000000000)],
      current_timestamp = 1730000000000000\<rparr>"

definition fx_customer :: "int \<Rightarrow> varchar \<Rightarrow> varchar \<Rightarrow> varchar \<Rightarrow> int \<Rightarrow> raw_customer" where
  "fx_customer row_id customer_id email age loaded =
     \<lparr>rc_row_id = row_id, rc_customer_id = customer_id, rc_name = Some ''Ada Rossi'',
      rc_email = email, rc_age = age, rc_city = Some ''Milan'', rc_country = Some ''IT'',
      rc_signup_date = Some ''04/03/2021'', rc_favorite_team = None,
      rc_membership_tier = Some ''Gold'', rc_gender = None, rc_load_timestamp = loaded\<rparr>"

definition fx_transaction :: "int \<Rightarrow> varchar \<Rightarrow> varchar \<Rightarrow> varchar \<Rightarrow> raw_transaction" where
  "fx_transaction row_id transaction_id customer_id amount =
     \<lparr>rt_row_id = row_id, rt_transaction_id = transaction_id, rt_customer_id = customer_id,
      rt_timestamp = Some ''2024-01-01 10:00:00'', rt_amount = amount, rt_currency = Some ''EUR'',
      rt_category = Some '' Match_Tickets'', rt_merchant = None, rt_description = None,
      rt_load_timestamp = 0\<rparr>"

definition fx_staging :: "raw_customer list \<Rightarrow> raw_transaction list \<Rightarrow> store" where
  "fx_staging cs ts =
     \<lparr>raw_customers = Some cs, raw_transactions = Some ts, raw_sentiment = Some [],
      dim_customers = None, fact_transactions = None, fact_sentiment = None,
      customer_profile = None\<rparr>"

text \<open>One customer and two transactions at the upper bound of the amount.\<close>

definition fx_boundary :: store where
  "fx_boundary =
     fx_staging [fx_customer 0 (Some ''CUST-0001'') (Some ''ada@x.it'') (Some ''33'') 5]
       [fx_transaction 0 (Some ''TXN-000001'') (Some ''CUST-0001'') (Some ''50000''),
        fx_transaction 1 (Some ''TXN-000002'') (Some ''CUST-0001'') (Some ''49999.99'')]"

text \<open>A transaction of 49999.99 next to one whose category is \<^verbatim>\<open>NULL\<close>.\<close>

definition fx_null_category :: store where
  "fx_null_category =
     fx_staging [fx_customer 0 (Some ''CUST-0001'') (Some ''ada@x.it'') (Some ''33'') 5]
       [fx_transaction 0 (Some ''TXN-000001'') (Some ''CUST-0001'') (Some ''49999.99''),
        (fx_transaction 1 (Some ''TXN-000002'') (Some ''CUST-0001'') (Some ''12.50''))
          \<lparr>rt_category := None\<rparr>]"

text \<open>Two customers, one with an age outside 0..150, and the same with an age that is
  no number.\<close>

definition fx_age_200 :: store where
  "fx_age_200 =
     fx_staging [fx_customer 0 (Some ''CUST-0001'') (Some ''ada@x.it'') (Some ''33'') 5,
                 fx_customer 1 (Some ''CUST-0002'') (Some ''bob@x.it'') (Some ''200'') 5] []"

definition fx_age_text :: store where
  "fx_age_text =
     fx_staging [fx_customer 0 (Some ''CUST-0001'') (Some ''ada@x.it'') (Some ''33'') 5,
                 fx_customer 1 (Some ''CUST-0002'') (Some ''bob@x.it'') (Some ''n/a'') 5] []"

text \<open>The same amount written with a decimal comma and with a decimal point.\<close>

definition fx_comma :: store where
  "fx_comma =
     fx_staging [fx_customer 0 (Some ''CUST-0001'') (Some ''ada@x.it'') (Some ''33'') 5]
       [fx_transaction 0 (Some ''TXN-000001'') (Some ''CUST-0001'') (Some ''1234,56''),
        fx_transaction 1 (Some ''TXN-000002'') (Some ''CUST-0001'') (Some ''1234.56'')]"

text \<open>A transaction whose \<^verbatim>\<open>customer_id\<close> differs from the customer's by case and a
  trailing space.\<close>

definition fx_case :: store where
  "fx_case =
     fx_staging [fx_customer 0 (Some ''CUST-0001'') (Some ''ada@x.it'') (Some ''33'') 5]
       [fx_transaction 0 (Some ''TXN-000001'') (Some ''cust-0001 '') (Some ''12.50'')]"

text \<open>A transaction of an unknown customer, with and without a staging customer row
  whose \<^verbatim>\<open>customer_id\<close> is \<^verbatim>\<open>NULL\<close>.\<close>

definition fx_null_customer :: store where
  "fx_null_customer =
     fx_staging [fx_customer 0 None (Some ''ada@x.it'') (Some ''33'') 5,
                 fx_customer 1 (Some ''CUST-0001'') (Some ''bob@x.it'') (Some ''41'') 5]
       [fx_transaction 0 (Some ''TXN-000001'') (Some ''CUST-9999'') (Some ''12.50'')]"

definition fx_no_null_customer :: store where
  "fx_no_null_customer =
     fx_staging [fx_customer 1 (Some ''CUST-0001'') (Some ''bob@x.it'') (Some ''41'') 5]
       [fx_transaction 0 (Some ''TXN-000001'') (Some ''CUST-9999'') (Some ''12.50'')]"

text \<open>Three customers with two, one and no transaction.\<close>

definition fx_profile :: store where
  "fx_profile =
     fx_staging
       [fx_customer 0 (Some ''CUST-0001'') (Some ''ada@x.it'') (Some ''33'') 5,
        fx_customer 1 (Some ''CUST-0002'') (Some ''bob@x.it'') (Some ''41'') 5,
        fx_customer 2 (Some ''CUST-0003'') (Some ''eve@x.it'') (Some ''27'') 5]
       [fx_transaction 0 (Some ''TXN-000001'') (Some ''CUST-0001'') (Some ''12.50''),
        fx_transaction 1 (Some ''TXN-000002'') (Some ''CUST-0001'') (Some ''30''),
        fx_transaction 2 (Some ''TXN-000003'') (Some ''CUST-0002'') (Some ''8.25'')]"

text \<open>A customer whose two transactions are 12418 days apart, and a customer without
  any transaction.\<close>

definition fx_overflow :: store where
  "fx_overflow =
     fx_staging
       [fx_customer 0 (Some ''CUST-0001'') (Some ''ada@x.it'') (Some ''33'') 5,
        fx_customer 1 (Some ''CUST-0002'') (Some ''bob@x.it'') (Some ''41'') 5]
       [(fx_transaction 0 (Some ''TXN-000001'') (Some ''CUST-0001'') (Some ''12.50''))
          \<lparr>rt_timestamp := Some ''1990-01-01 10:00:00''\<rparr>,
        fx_transaction 1 (Some ''TXN-000002'') (Some ''CUST-0001'') (Some ''30'')]"

text \<open>Ten customers; the email is null in three of them, the age in four.\<close>

definition fx_null_rows :: "raw_customer list" where
  "fx_null_rows =
     map (\<lambda>i. fx_customer (int i) (Some (''CUST-000'' @ [''0123456789'' ! i]))
                 (if i < 3 then None else Some ''ada@x.it'')
                 (if i < 4 then None else Some ''33'') 5) [0..<10]"

definition fx_nulls :: store where
  "fx_nulls = fx_staging fx_null_rows []"

lemmas fx_defs = fx_engine_def fx_customer_def fx_transaction_def fx_staging_def

section \<open>Lemmas\<close>

subsection \<open>Deduplication\<close>

lemma set_distinct_on: "set (distinct_on k xs) \<subseteq> set xs"
  by (induction k xs rule: distinct_on.induct) auto

lemma keys_distinct_on: "k ` set (distinct_on k xs) = k ` set xs"
proof (induction k xs rule: distinct_on.induct)
  case (1 k)
  then show ?case by simp
next
  case (2 k r rs)
  have "k ` set (r # rs) = insert (k r) (k ` set (filter (\<lambda>x. k x \<noteq> k r) rs))"
    by auto
  with 2 show ?case by simp
qed

lemma distinct_keys_distinct_on: "distinct (map k (distinct_on k xs))"
proof (induction k xs rule: distinct_on.induct)
  case (1 k)
  then show ?case by simp
next
  case (2 k r rs)
  have "k r \<notin> k ` set (distinct_on k (filter (\<lambda>x. k x \<noteq> k r) rs))"
    unfolding keys_distinct_on by auto
  with 2 show ?case by simp
qed

lemma sorted_distinct_on:
  "sorted (map f xs) \<Longrightarrow> sorted (map f (distinct_on k xs))"
proof (induction k xs rule: distinct_on.induct)
  case (1 k)
  then show ?case by simp
next
  case (2 k r rs)
  from "2.prems" have hd: "\<forall>x\<in>set rs. f r \<le> f x" and tl: "sorted (map f rs)"
    by auto
  from tl have "sorted (map f (filter (\<lambda>x. k x \<noteq> k r) rs))"
    by (rule sorted_filter)
  then have "sorted (map f (distinct_on k (filter (\<lambda>x. k x \<noteq> k r) rs)))"
    by (rule "2.IH")
  moreover have "\<forall>x\<in>set (distinct_on k (filter (\<lambda>x. k x \<noteq> k r) rs)). f r \<le> f x"
    using hd set_distinct_on [of k "filter (\<lambda>x. k x \<noteq> k r) rs"] by auto
  ultimately show ?case by simp
qed

lemma distinct_on_id: "distinct (map k xs) \<Longrightarrow> distinct_on k xs = xs"
proof (induction k xs rule: distinct_on.induct)
  case (1 k)
  then show ?case by simp
next
  case (2 k r rs)
  from "2.prems" have "\<forall>x\<in>set rs. k x \<noteq> k r"
    by (metis distinct.simps(2) image_eqI list.simps(9) set_map)
  then have "filter (\<lambda>x. k x \<noteq> k r) rs = rs"
    by simp
  with 2 show ?case by simp
qed

lemma distinct_on_first:
  "sorted (map (\<lambda>r. (k r, t r)) xs) \<Longrightarrow> r \<in> set (distinct_on k xs) \<Longrightarrow>
   r' \<in> set xs \<Longrightarrow> k r' = k r \<Longrightarrow> t r \<le> t r'"
proof (induction k xs arbitrary: r r' rule: distinct_on.induct)
  case (1 k)
  then show ?case by simp
next
  case (2 k x xs)
  let ?rest = "filter (\<lambda>y. k y \<noteq> k x) xs"
  from "2.prems"(1) have hd: "\<forall>y\<in>set xs. (k x, t x) \<le> (k y, t y)"
    and tl: "sorted (map (\<lambda>r. (k r, t r)) xs)"
    by auto
  show ?case
  proof (cases "r = x")
    case True
    show ?thesis
    proof (cases "r' = x")
      case True
      with \<open>r = x\<close> show ?thesis by simp
    next
      case False
      with "2.prems"(3) have "r' \<in> set xs" by simp
      with hd have "(k x, t x) \<le> (k r', t r')" by blast
      with "2.prems"(4) True show ?thesis by simp
    qed
  next
    case False
    with "2.prems"(2) have rin: "r \<in> set (distinct_on k ?rest)" by simp
    then have "r \<in> set ?rest" using set_distinct_on [of k ?rest] by blast
    then have kr: "k r \<noteq> k x" by simp
    with "2.prems"(3,4) have "r' \<in> set ?rest" by auto
    moreover from tl have "sorted (map (\<lambda>r. (k r, t r)) ?rest)" by (rule sorted_filter)
    ultimately show ?thesis using "2.IH" rin "2.prems"(4) by blast
  qed
qed

lemma deduped_idem: "deduped key tie (deduped key tie rows) = deduped key tie rows"
proof -
  let ?f = "\<lambda>r. (key r, tie r)"
  let ?s = "sort_key ?f (filter (\<lambda>r. key r \<noteq> None) rows)"
  let ?d = "distinct_on key ?s"
  have srt: "sorted (map ?f ?d)"
    by (rule sorted_distinct_on) (rule sorted_sort_key)
  have "set ?d \<subseteq> set ?s" by (rule set_distinct_on)
  moreover have "\<forall>r\<in>set ?s. key r \<noteq> None" by simp
  ultimately have "\<forall>r\<in>set ?d. key r \<noteq> None" by blast
  then have flt: "filter (\<lambda>r. key r \<noteq> None) ?d = ?d" unfolding filter_id_conv .
  have "sort_key ?f ?d = ?d" using srt by (rule sort_key_id_if_sorted)
  moreover have "distinct_on key ?d = ?d"
    by (rule distinct_on_id) (rule distinct_keys_distinct_on)
  ultimately show ?thesis unfolding deduped_def by (simp only: flt)
qed

lemma set_deduped: "set (deduped key tie rows) \<subseteq> {r \<in> set rows. key r \<noteq> None}"
  unfolding deduped_def using set_distinct_on [of key "sort_key (\<lambda>r. (key r, tie r)) (filter (\<lambda>r. key r \<noteq> None) rows)"]
  by auto

lemma distinct_keys_deduped: "distinct (map key (deduped key tie rows))"
  unfolding deduped_def by (rule distinct_keys_distinct_on)

lemma create_if_not_exists_empty: "target_empty tbl \<Longrightarrow> create_if_not_exists tbl = Some []"
  by (simp add: target_empty_def create_if_not_exists_def split: option.splits)

lemma dim_ids_select: "map dc_customer_id (select_dim_customers eng raws) = map rc_customer_id (deduped_customers raws)"
  by (simp add: select_dim_customers_def clean_customer_def)

lemma distinct_select_dim: "distinct (map dc_customer_id (select_dim_customers eng raws))"
  unfolding dim_ids_select deduped_customers_def by (rule distinct_keys_deduped)

subsection \<open>The steps of a run\<close>

lemma load_dim_customers_conn:
  "conn (load_dim_customers eng t) = conn t \<or>
   (\<exists>old raws rows. dim_customers (conn t) = Some old \<and> raw_customers (conn t) = Some raws
      \<and> insert_dim_customers (select_dim_customers eng raws) old = Inr rows
      \<and> conn (load_dim_customers eng t) = (conn t)\<lparr>dim_customers := Some rows\<rparr>)"
  by (auto simp: load_dim_customers_def exec_load_dim_customers_def count_star_def split: option.splits sum.splits)

lemma load_fact_transactions_conn:
  "conn (load_fact_transactions eng t) = conn t \<or>
   (\<exists>old raws dcs rows. fact_transactions (conn t) = Some old \<and> raw_transactions (conn t) = Some raws
      \<and> dim_customers (conn t) = Some dcs
      \<and> insert_fact_transactions dcs (select_fact_transactions eng dcs raws) old = Inr rows
      \<and> conn (load_fact_transactions eng t) = (conn t)\<lparr>fact_transactions := Some rows\<rparr>)"
  by (auto simp: load_fact_transactions_def exec_load_fact_transactions_def count_star_def split: option.splits sum.splits)

lemma load_fact_sentiment_conn:
  "\<exists>x. conn (load_fact_sentiment eng t) = (conn t)\<lparr>fact_sentiment := x\<rparr>"
proof (cases "exec_load_fact_sentiment eng (conn t)")
  case (Inl e)
  then have "conn (load_fact_sentiment eng t) = conn t" by (simp add: load_fact_sentiment_def)
  then have "conn (load_fact_sentiment eng t) = (conn t)\<lparr>fact_sentiment := fact_sentiment (conn t)\<rparr>" by simp
  then show ?thesis by blast
next
  case (Inr st)
  then have c: "conn (load_fact_sentiment eng t) = st"
    by (simp add: load_fact_sentiment_def split: sum.splits)
  from Inr obtain rows where "st = (conn t)\<lparr>fact_sentiment := Some rows\<rparr>"
    by (auto simp: exec_load_fact_sentiment_def split: option.splits sum.splits)
  with c show ?thesis by blast
qed

lemma load_customer_profile_conn:
  "\<exists>x. conn (load_customer_profile eng t) = (conn t)\<lparr>customer_profile := x\<rparr>"
proof (cases "exec_load_customer_profile eng (conn t)")
  case (Inl e)
  then have "conn (load_customer_profile eng t) = conn t" by (simp add: load_customer_profile_def)
  then have "conn (load_customer_profile eng t) = (conn t)\<lparr>customer_profile := customer_profile (conn t)\<rparr>" by simp
  then show ?thesis by blast
next
  case (Inr st)
  then have c: "conn (load_customer_profile eng t) = st"
    by (simp add: load_customer_profile_def split: sum.splits)
  from Inr obtain rows where "st = (conn t)\<lparr>customer_profile := Some rows\<rparr>"
    by (auto simp: exec_load_customer_profile_def split: option.splits sum.splits)
  with c show ?thesis by blast
qed

lemma conn_load_dim:
  assumes "dim_customers (conn t) = Some []"
  shows "conn (load_dim_customers eng t) = (conn t)\<lparr>dim_customers := Some (dim_loaded eng (conn t))\<rparr>"
proof -
  have same: "(conn t)\<lparr>dim_customers := Some []\<rparr> = conn t"
    using assms by (cases "conn t") simp
  show ?thesis
    using assms same
    by (auto simp: load_dim_customers_def exec_load_dim_customers_def count_star_def dim_loaded_def
        split: option.splits sum.splits)
qed

lemma conn_load_fact:
  assumes "fact_transactions (conn t) = Some []" and "dim_customers (conn t) = Some dcs"
  shows "conn (load_fact_transactions eng t) =
         (conn t)\<lparr>fact_transactions := Some
            (case raw_transactions (conn t) of None \<Rightarrow> []
             | Some raws \<Rightarrow> (case insert_fact_transactions dcs (select_fact_transactions eng dcs raws) [] of
                 Inl e \<Rightarrow> [] | Inr rows \<Rightarrow> rows))\<rparr>"
proof -
  have same: "(conn t)\<lparr>fact_transactions := Some []\<rparr> = conn t"
    using assms by (cases "conn t") simp
  show ?thesis
    using assms same
    by (auto simp: load_fact_transactions_def exec_load_fact_transactions_def count_star_def
        split: option.splits sum.splits)
qed

lemma conn_create_tables:
  assumes "targets_empty st"
  shows "conn (create_tables (new_transformer st)) =
         st\<lparr>dim_customers := Some [], fact_transactions := Some [], fact_sentiment := Some [],
            customer_profile := Some []\<rparr>"
  using assms
  by (simp add: create_tables_def new_transformer_def targets_empty_def create_if_not_exists_empty)

lemma transform_all_tables:
  assumes "targets_empty st"
  shows "dim_customers (conn (transform_all eng (new_transformer st))) = Some (dim_loaded eng st)"
    and "fact_transactions (conn (transform_all eng (new_transformer st))) = Some (fact_loaded eng st)"
proof -
  let ?t1 = "create_tables (new_transformer st)"
  let ?t2 = "load_dim_customers eng ?t1"
  let ?t3 = "load_fact_transactions eng ?t2"
  let ?t4 = "load_fact_sentiment eng ?t3"
  let ?t5 = "load_customer_profile eng ?t4"
  have c1: "conn ?t1 = st\<lparr>dim_customers := Some [], fact_transactions := Some [],
              fact_sentiment := Some [], customer_profile := Some []\<rparr>"
    using assms by (rule conn_create_tables)
  have d1: "dim_loaded eng (conn ?t1) = dim_loaded eng st"
    by (simp add: c1 dim_loaded_def)
  have c2: "conn ?t2 = (conn ?t1)\<lparr>dim_customers := Some (dim_loaded eng st)\<rparr>"
    using conn_load_dim [of ?t1 eng] by (simp add: c1 d1 [unfolded c1])
  have c3: "conn ?t3 = (conn ?t2)\<lparr>fact_transactions := Some (fact_loaded eng st)\<rparr>"
    using conn_load_fact [of ?t2 "dim_loaded eng st" eng]
    by (simp add: c2 c1 fact_loaded_def)
  obtain x where c4: "conn ?t4 = (conn ?t3)\<lparr>fact_sentiment := x\<rparr>"
    using load_fact_sentiment_conn by blast
  obtain y where c5: "conn ?t5 = (conn ?t4)\<lparr>customer_profile := y\<rparr>"
    using load_customer_profile_conn by blast
  show "dim_customers (conn (transform_all eng (new_transformer st))) = Some (dim_loaded eng st)"
    by (simp add: transform_all_def c5 c4 c3 c2)
  show "fact_transactions (conn (transform_all eng (new_transformer st))) = Some (fact_loaded eng st)"
    by (simp add: transform_all_def c5 c4 c3)
qed

subsection \<open>The \<^verbatim>\<open>WHERE\<close> clause of the fact loader\<close>

lemma replace_commas_id: "CHR '','' \<notin> set s \<Longrightarrow> replace_commas s = s"
  unfolding replace_commas_def by (induction s) auto

lemma try_cast_decimal_no_comma:
  assumes "reads_no_comma eng" and "try_cast_decimal eng 10 2 v = Some a"
  shows "REPLACE_comma v = v"
proof (cases v)
  case None
  then show ?thesis by (simp add: REPLACE_comma_def)
next
  case (Some s)
  with assms(2) have "cast_decimal eng 10 2 s = Some a"
    by (simp add: try_cast_decimal_def)
  with assms(1) have "CHR '','' \<notin> set s"
    unfolding reads_no_comma_def by blast
  with Some show ?thesis by (simp add: REPLACE_comma_def replace_commas_id)
qed

lemma where_fact_amount:
  assumes "reads_no_comma eng" and "where_fact_transactions eng dcs r"
  shows "\<exists>a. ft_amount_eur (clean_transaction eng r) = Some a \<and> - 1000 < a \<and> a < 50000"
proof -
  from assms(2) obtain a where a: "try_cast_decimal eng 10 2 (rt_amount r) = Some a"
    by (auto simp: where_fact_transactions_def)
  with assms(2) have "- 1000 < a" "a < 50000"
    by (auto simp: where_fact_transactions_def is_true_def sql_less_def)
  moreover from assms(1) a have "REPLACE_comma (rt_amount r) = rt_amount r"
    by (rule try_cast_decimal_no_comma)
  ultimately show ?thesis using a by (simp add: clean_transaction_def)
qed

lemma is_true_sql_in: "is_true (sql_in x ys) \<longleftrightarrow> x \<noteq> None \<and> x \<in> set ys"
  by (auto simp: is_true_def sql_in_def split: option.splits)

lemma where_fact_customer:
  assumes "where_fact_transactions eng dcs r"
  shows "rt_customer_id r \<noteq> None \<and> rt_customer_id r \<in> set (map dc_customer_id dcs)"
  using assms by (simp add: where_fact_transactions_def is_true_sql_in)

lemma exactly_one_if_distinct:
  assumes "distinct (map f xs)" and "k \<in> set (map f xs)"
  shows "length (filter (\<lambda>x. f x = k) xs) = 1"
  using assms
proof (induction xs)
  case Nil
  then show ?case by simp
next
  case (Cons x xs)
  show ?case
  proof (cases "f x = k")
    case True
    with Cons.prems have "k \<notin> f ` set xs" by simp
    then have "\<forall>y\<in>set xs. f y \<noteq> k" by blast
    then have "filter (\<lambda>x. f x = k) xs = []" by (simp add: filter_empty_conv)
    with True show ?thesis by simp
  next
    case False
    with Cons show ?thesis by auto
  qed
qed

lemma is_true_Some: "is_true (Some b) = b"
  by (simp add: is_true_def)

subsection \<open>The loaded tables\<close>

lemma insert_dim_customers_Inr: "insert_dim_customers new [] = Inr rows \<Longrightarrow> rows = new"
  by (auto simp: insert_dim_customers_def split: if_splits)

lemma insert_fact_transactions_Inr: "insert_fact_transactions dcs new [] = Inr rows \<Longrightarrow> rows = new"
  by (auto simp: insert_fact_transactions_def split: if_splits)

lemma distinct_dim_loaded: "distinct (map dc_customer_id (dim_loaded eng st))"
proof (cases "raw_customers st")
  case None
  then show ?thesis by (simp add: dim_loaded_def)
next
  case (Some raws)
  show ?thesis
  proof (cases "insert_dim_customers (select_dim_customers eng raws) []")
    case (Inl e)
    with Some show ?thesis by (simp add: dim_loaded_def)
  next
    case (Inr rows)
    then have "rows = select_dim_customers eng raws" by (rule insert_dim_customers_Inr)
    with Some Inr show ?thesis by (simp add: dim_loaded_def distinct_select_dim)
  qed
qed

lemma dim_loaded_ids:
  assumes "k \<in> set (map dc_customer_id (dim_loaded eng st))"
  shows "\<exists>raws. raw_customers st = Some raws \<and> k \<in> set (map rc_customer_id raws)"
proof (cases "raw_customers st")
  case None
  with assms show ?thesis by (simp add: dim_loaded_def)
next
  case (Some raws)
  show ?thesis
  proof (cases "insert_dim_customers (select_dim_customers eng raws) []")
    case (Inl e)
    with Some assms show ?thesis by (simp add: dim_loaded_def)
  next
    case (Inr rows)
    then have "rows = select_dim_customers eng raws" by (rule insert_dim_customers_Inr)
    with Some Inr assms have "k \<in> set (map rc_customer_id (deduped_customers raws))"
      by (simp add: dim_loaded_def dim_ids_select)
    then have "k \<in> set (map rc_customer_id raws)"
      using set_deduped [of rc_customer_id rc_load_timestamp raws]
      by (auto simp: deduped_customers_def)
    with Some show ?thesis by simp
  qed
qed

lemma fact_loaded_rows:
  assumes "f \<in> set (fact_loaded eng st)"
  shows "\<exists>raws r. raw_transactions st = Some raws \<and> r \<in> set (deduped_transactions raws)
           \<and> where_fact_transactions eng (dim_loaded eng st) r \<and> f = clean_transaction eng r"
proof (cases "raw_transactions st")
  case None
  with assms show ?thesis by (simp add: fact_loaded_def)
next
  case (Some raws)
  let ?new = "select_fact_transactions eng (dim_loaded eng st) raws"
  show ?thesis
  proof (cases "insert_fact_transactions (dim_loaded eng st) ?new []")
    case (Inl e)
    with Some assms show ?thesis by (simp add: fact_loaded_def)
  next
    case (Inr rows)
    then have "rows = ?new" by (rule insert_fact_transactions_Inr)
    with Some Inr assms have "f \<in> set ?new" by (simp add: fact_loaded_def)
    then obtain r where "r \<in> set (deduped_transactions raws)"
      "where_fact_transactions eng (dim_loaded eng st) r" "f = clean_transaction eng r"
      by (auto simp: select_fact_transactions_def)
    with Some show ?thesis by blast
  qed
qed

lemma name_not_null: "LOWER (TRIM (COALESCE x (Some s))) \<noteq> None"
  by (simp add: LOWER_def TRIM_def COALESCE_def split: option.splits)

lemma dim_loaded_all:
  assumes "raw_customers st = Some raws"
    and "list_all (\<lambda>r. age_check (try_cast_integer eng (rc_age r))) (deduped_customers raws)"
  shows "dim_loaded eng st = select_dim_customers eng raws"
proof -
  let ?new = "select_dim_customers eng raws"
  have keys: "\<forall>r\<in>set (deduped_customers raws). rc_customer_id r \<noteq> None"
    using set_deduped [of rc_customer_id rc_load_timestamp raws]
    by (auto simp: deduped_customers_def)
  have "\<not> list_ex (\<lambda>r. dc_customer_id r = None \<or> dc_name r = None) ?new"
    using keys by (auto simp: list_ex_iff select_dim_customers_def clean_customer_def name_not_null)
  moreover have "\<not> list_ex (\<lambda>r. \<not> age_check (dc_age r)) ?new"
    using assms(2) by (auto simp: list_ex_iff list_all_iff select_dim_customers_def clean_customer_def)
  moreover have "distinct (map dc_customer_id ([] @ ?new))"
    by (simp add: distinct_select_dim)
  ultimately have "insert_dim_customers ?new [] = Inr ?new"
    by (simp add: insert_dim_customers_def)
  with assms(1) show ?thesis by (simp add: dim_loaded_def)
qed

lemma is_true_sql_not_in: "is_true (sql_not_in x ys) \<Longrightarrow> x \<notin> set ys"
  by (auto simp: is_true_def sql_not_in_def sql_in_def split: option.splits if_splits)

lemma orphan_not_loaded:
  assumes "raw_customers st = Some cs" and "where_orphan cs t"
  shows "clean_transaction eng t \<notin> set (fact_loaded eng st)"
proof
  assume "clean_transaction eng t \<in> set (fact_loaded eng st)"
  then obtain r where w: "where_fact_transactions eng (dim_loaded eng st) r"
    and eq: "clean_transaction eng t = clean_transaction eng r"
    using fact_loaded_rows by blast
  from eq have "ft_customer_id (clean_transaction eng t) = ft_customer_id (clean_transaction eng r)"
    by simp
  then have "rt_customer_id t = rt_customer_id r" by (simp add: clean_transaction_def)
  with w have "rt_customer_id t \<in> set (map dc_customer_id (dim_loaded eng st))"
    using where_fact_customer by metis
  then have "rt_customer_id t \<in> set (map rc_customer_id cs)"
    using dim_loaded_ids assms(1) by fastforce
  moreover from assms(2) have "rt_customer_id t \<notin> set (map rc_customer_id cs)"
    unfolding where_orphan_def using is_true_sql_not_in by blast
  ultimately show False by contradiction
qed


lemma fact_loaded_customer:
  assumes "f \<in> set (fact_loaded eng st)"
  shows "ft_customer_id f \<in> set (map dc_customer_id (dim_loaded eng st))"
proof -
  from assms obtain r where w: "where_fact_transactions eng (dim_loaded eng st) r"
    and f: "f = clean_transaction eng r"
    using fact_loaded_rows by blast
  from f have "ft_customer_id f = rt_customer_id r" by (simp add: clean_transaction_def)
  with w show ?thesis using where_fact_customer by metis
qed

lemma check_foreign_keys_loaded:
  assumes "dim_customers st' = Some (dim_loaded eng st)"
    and "fact_transactions st' = Some (fact_loaded eng st)"
  shows "check_foreign_keys st' = Fk_report True 0"
proof -
  have "filter (\<lambda>t. is_true (sql_not_in (ft_customer_id t) (map dc_customer_id (dim_loaded eng st))))
          (fact_loaded eng st) = []"
    unfolding filter_empty_conv using fact_loaded_customer is_true_sql_not_in by blast
  with assms show ?thesis by (simp add: check_foreign_keys_def)
qed


subsection \<open>Customer profile\<close>

lemma left_join_keys:
  "set (map (\<lambda>j. dc_customer_id (fst j)) (left_join dcs fts)) = set (map dc_customer_id dcs)"
proof (induction dcs)
  case Nil
  then show ?case by (simp add: left_join_def)
next
  case (Cons c cs)
  let ?ms = "filter (\<lambda>t. is_true (sql_eq (dc_customer_id c) (ft_customer_id t))) fts"
  have split: "left_join (c # cs) fts =
      (if ?ms = [] then [(c, None)] else map (\<lambda>t. (c, Some t)) ?ms) @ left_join cs fts"
    by (simp add: left_join_def Let_def)
  have "set (map (\<lambda>j. dc_customer_id (fst j))
           (if ?ms = [] then [(c, None)] else map (\<lambda>t. (c, Some t)) ?ms)) = {dc_customer_id c}"
    by (cases ?ms) auto
  with Cons split show ?case by simp
qed

lemma profile_keys:
  "map cp_customer_id (select_customer_profile eng dcs fts)
     = remdups (map (\<lambda>j. dc_customer_id (fst j)) (left_join dcs fts))"
  by (simp add: select_customer_profile_def profile_row_def o_def)

lemma left_join_match:
  assumes "(c, Some t) \<in> set (left_join dcs fts)"
  shows "t \<in> set fts \<and> ft_customer_id t = dc_customer_id c"
proof -
  from assms obtain c' where
    "(c, Some t) \<in> set (let ms = filter (\<lambda>t. is_true (sql_eq (dc_customer_id c') (ft_customer_id t))) fts
                         in if ms = [] then [(c', None)] else map (\<lambda>t. (c', Some t)) ms)"
    by (auto simp: left_join_def)
  then have "t \<in> set fts" and "is_true (sql_eq (dc_customer_id c) (ft_customer_id t))"
    by (auto simp: Let_def split: if_splits)
  then show ?thesis
    by (auto simp: is_true_def sql_eq_def split: option.splits)
qed

lemma count_distinct_all_null:
  assumes "\<forall>x\<in>set xs. x = None"
  shows "count_distinct xs = 0"
proof -
  from assms have "non_null xs = []"
    by (induction xs) (auto simp: non_null_def)
  then show ?thesis by (simp add: count_distinct_def)
qed

lemma txn_count_no_transactions:
  assumes "\<forall>t\<in>set fts. ft_customer_id t \<noteq> g"
  shows "txn_count (group_of g (left_join dcs fts)) = 0"
proof -
  have "t_col ft_transaction_id j = None" if "j \<in> set (group_of g (left_join dcs fts))" for j
  proof (cases "snd j")
    case None
    then show ?thesis by (simp add: t_col_def)
  next
    case (Some t)
    from that have jin: "j \<in> set (left_join dcs fts)" and g: "dc_customer_id (fst j) = g"
      by (auto simp: group_of_def)
    from jin Some have "(fst j, Some t) \<in> set (left_join dcs fts)"
      by (metis prod.collapse)
    then have "t \<in> set fts \<and> ft_customer_id t = dc_customer_id (fst j)"
      by (rule left_join_match)
    with assms g show ?thesis by auto
  qed
  then show ?thesis
    unfolding txn_count_def by (intro count_distinct_all_null) auto
qed

lemma non_null_empty: "non_null xs = [] \<longleftrightarrow> (\<forall>x\<in>set xs. x = None)"
  by (induction xs) (auto simp: non_null_def split: option.splits)

lemma group_unmatched:
  assumes pk: "\<forall>t\<in>set fts. ft_transaction_id t \<noteq> None"
    and zero: "txn_count (group_of g (left_join dcs fts)) = 0"
    and j: "j \<in> set (group_of g (left_join dcs fts))"
  shows "snd j = None"
proof (cases "snd j")
  case None
  then show ?thesis .
next
  case (Some t)
  from j have "j \<in> set (left_join dcs fts)" by (simp add: group_of_def)
  with Some have "(fst j, Some t) \<in> set (left_join dcs fts)" by (metis prod.collapse)
  then have "t \<in> set fts" using left_join_match by blast
  with pk have "ft_transaction_id t \<noteq> None" by blast
  with Some have nn: "t_col ft_transaction_id j \<noteq> None" by (simp add: t_col_def)
  from zero have "non_null (map (t_col ft_transaction_id) (group_of g (left_join dcs fts))) = []"
    by (simp add: txn_count_def count_distinct_def)
  then have "t_col ft_transaction_id j = None"
    using j by (simp add: non_null_empty)
  with nn show ?thesis by contradiction
qed

lemma null_when_no_transactions:
  assumes pk: "\<forall>t\<in>set fts. ft_transaction_id t \<noteq> None"
    and zero: "txn_count (group_of g (left_join dcs fts)) = 0"
  shows "sports_affinity_ratio (group_of g (left_join dcs fts)) = None
       \<and> avg_days_between_txns (group_of g (left_join dcs fts)) = None"
proof -
  let ?js = "group_of g (left_join dcs fts)"
  have "\<forall>x\<in>set (txn_dates ?js). x = None"
    using group_unmatched [OF pk zero] by (auto simp: txn_dates_def t_col_def DATE_def)
  then have "non_null (txn_dates ?js) = []" by (simp add: non_null_empty)
  then have "sql_max (txn_dates ?js) = None" by (simp add: sql_max_def)
  then have "avg_days_between_txns ?js = None"
    by (simp add: avg_days_between_txns_def sql_minus_def sql_div_def sql_round_def)
  moreover have "sports_affinity_ratio ?js = None"
    using zero
    by (simp add: sports_affinity_ratio_def ratio_divisor_def NULLIF_def sql_div_def sql_round_def)
  ultimately show ?thesis by simp
qed

lemma null_when_one_transaction:
  "txn_count js = 1 \<Longrightarrow> avg_days_between_txns js = None"
  by (simp add: avg_days_between_txns_def days_divisor_def NULLIF_def sql_div_def sql_round_def
      split: option.splits)


subsection \<open>Rounding to a double and the null-rate threshold\<close>

lemma round_half_even_ge:
  assumes "of_int k \<le> x"
  shows "k \<le> round_half_even x"
proof -
  from assms have "k \<le> \<lfloor>x\<rfloor>" by (simp add: le_floor_iff)
  then show ?thesis by (simp add: round_half_even_def Let_def)
qed

lemma round_half_even_le:
  assumes "x \<le> of_int k"
  shows "round_half_even x \<le> k"
proof (cases "x = of_int k")
  case True
  then show ?thesis by (simp add: round_half_even_def Let_def)
next
  case False
  with assms have "x < of_int k" by simp
  then have "\<lfloor>x\<rfloor> < k" by (simp add: floor_less_iff)
  then show ?thesis by (simp add: round_half_even_def Let_def)
qed

lemma round_half_even_gt_odd:
  assumes "odd k"
  shows "k < round_half_even x \<longleftrightarrow> of_int k + 1 / 2 \<le> x"
proof
  assume x: "of_int k + 1 / 2 \<le> x"
  then have fl: "k \<le> \<lfloor>x\<rfloor>" by (simp add: le_floor_iff)
  show "k < round_half_even x"
  proof (cases "k = \<lfloor>x\<rfloor>")
    case True
    with x have "1 / 2 \<le> x - of_int \<lfloor>x\<rfloor>" by simp
    with True assms show ?thesis by (simp add: round_half_even_def Let_def)
  next
    case False
    with fl have "k < \<lfloor>x\<rfloor>" by simp
    then show ?thesis by (simp add: round_half_even_def Let_def)
  qed
next
  assume r: "k < round_half_even x"
  show "of_int k + 1 / 2 \<le> x"
  proof (rule ccontr)
    assume "\<not> of_int k + 1 / 2 \<le> x"
    then have x: "x < of_int k + 1 / 2" by simp
    then have "x < of_int (k + 1)" by simp
    then have "\<lfloor>x\<rfloor> < k + 1" by (simp only: floor_less_iff)
    then have fl: "\<lfloor>x\<rfloor> \<le> k" by simp
    have "round_half_even x \<le> k"
    proof (cases "\<lfloor>x\<rfloor> = k")
      case True
      with x have "x - of_int \<lfloor>x\<rfloor> < 1 / 2" by simp
      with True show ?thesis by (simp add: round_half_even_def Let_def)
    next
      case False
      with fl have "\<lfloor>x\<rfloor> + 1 \<le> k" by simp
      then show ?thesis by (simp add: round_half_even_def Let_def)
    qed
    with r show False by simp
  qed
qed

lemma binary_exponent_bounds:
  assumes "0 < a" and "0 < b"
  shows "(2::rat) powi binary_exponent a b \<le> of_nat a / of_nat b"
    and "of_nat a / of_nat b < (2::rat) powi (binary_exponent a b + 1)"
proof -
  define la where "la = floorlog 2 a"
  define lb where "lb = floorlog 2 b"
  have ba: "2 ^ (la - 1) \<le> a" "a < 2 ^ la"
    using floorlog_bounds [of a 2] assms(1) by (simp_all add: la_def)
  have bb: "2 ^ (lb - 1) \<le> b" "b < 2 ^ lb"
    using floorlog_bounds [of b 2] assms(2) by (simp_all add: lb_def)
  have la1: "1 \<le> la" using assms(1) by (simp add: la_def floorlog_def)
  have lb1: "1 \<le> lb" using assms(2) by (simp add: lb_def floorlog_def)
  have bpos: "(0::rat) < of_nat b" using assms(2) by simp
  have pd: "(2::rat) powi (int m - int n) = 2 ^ m / 2 ^ n" for m n
    by (simp add: power_int_diff)
  have ra: "(2::rat) ^ (la - 1) \<le> of_nat a" "(of_nat a :: rat) < 2 ^ la"
    using ba by (metis of_nat_le_iff of_nat_numeral of_nat_power, metis of_nat_less_iff of_nat_numeral of_nat_power)
  have rb: "(2::rat) ^ (lb - 1) \<le> of_nat b" "(of_nat b :: rat) < 2 ^ lb"
    using bb by (metis of_nat_le_iff of_nat_numeral of_nat_power, metis of_nat_less_iff of_nat_numeral of_nat_power)
  have la_split: "(2::rat) ^ la = 2 * 2 ^ (la - 1)"
    using la1 by (cases la) simp_all
  have lb_split: "(2::rat) ^ lb = 2 * 2 ^ (lb - 1)"
    using lb1 by (cases lb) simp_all
  show "(2::rat) powi binary_exponent a b \<le> of_nat a / of_nat b"
  proof (cases "b * 2 ^ la \<le> a * 2 ^ lb")
    case True
    then have e: "binary_exponent a b = int la - int lb"
      by (simp add: binary_exponent_def la_def lb_def)
    from True have "(of_nat (b * 2 ^ la) :: rat) \<le> of_nat (a * 2 ^ lb)"
      by (simp only: of_nat_le_iff)
    then have "(of_nat b :: rat) * 2 ^ la \<le> of_nat a * 2 ^ lb" by simp
    then have "(2::rat) ^ la / 2 ^ lb \<le> of_nat a / of_nat b"
      using bpos by (simp add: field_simps)
    then show ?thesis by (simp add: e pd)
  next
    case False
    then have e: "binary_exponent a b = int la - int lb - 1"
      by (simp add: binary_exponent_def la_def lb_def)
    have "int la - int lb - 1 = int (la - 1) - int lb"
      using la1 by (simp add: of_nat_diff)
    then have "(2::rat) powi (int la - int lb - 1) = 2 powi (int (la - 1) - int lb)"
      by (simp only:)
    also have "\<dots> = 2 ^ (la - 1) / 2 ^ lb" by (rule pd)
    also have "\<dots> \<le> of_nat a / 2 ^ lb"
      using ra(1) by (simp add: divide_right_mono)
    also have "\<dots> \<le> of_nat a / of_nat b"
      using rb(2) bpos assms(1) by (simp add: frac_le)
    finally show ?thesis by (simp add: e)
  qed
  show "of_nat a / of_nat b < (2::rat) powi (binary_exponent a b + 1)"
  proof (cases "b * 2 ^ la \<le> a * 2 ^ lb")
    case True
    then have e: "binary_exponent a b = int la - int lb"
      by (simp add: binary_exponent_def la_def lb_def)
    have "of_nat a / of_nat b < (2::rat) ^ la / of_nat b"
      using ra(2) bpos by (simp add: divide_strict_right_mono)
    also have "\<dots> \<le> 2 ^ la / 2 ^ (lb - 1)"
      using rb(1) by (simp add: frac_le)
    also have "\<dots> = 2 powi (int la - int (lb - 1))" by (simp only: pd)
    also have "\<dots> = 2 powi (int la - int lb + 1)"
    proof -
      have "int la - int (lb - 1) = int la - int lb + 1"
        using lb1 by (simp add: of_nat_diff)
      then show ?thesis by (simp only:)
    qed
    finally show ?thesis by (simp add: e)
  next
    case False
    then have e: "binary_exponent a b = int la - int lb - 1"
      by (simp add: binary_exponent_def la_def lb_def)
    from False have "a * 2 ^ lb < b * 2 ^ la" by simp
    then have "(of_nat (a * 2 ^ lb) :: rat) < of_nat (b * 2 ^ la)"
      by (simp only: of_nat_less_iff)
    then have "(of_nat a :: rat) * 2 ^ lb < of_nat b * 2 ^ la" by simp
    then have "of_nat a / of_nat b < (2::rat) ^ la / 2 ^ lb"
      using bpos by (simp add: field_simps)
    then show ?thesis by (simp add: e pd)
  qed
qed

lemma NULL_RATE_WARNING_value: "NULL_RATE_WARNING = 5404319552844595 / 2 ^ 54"
  by code_simp

lemma float_of_ratio_range:
  assumes "0 < a" and "0 < b"
  shows "(2::rat) powi binary_exponent a b \<le> float_of_ratio a b"
    and "float_of_ratio a b \<le> (2::rat) powi (binary_exponent a b + 1)"
proof -
  define e where "e = binary_exponent a b"
  define q :: rat where "q = of_nat a / of_nat b"
  define x where "x = q * 2 powi (52 - e)"
  have f: "float_of_ratio a b = of_int (round_half_even x) * 2 powi (e - 52)"
    using assms(1) by (simp add: float_of_ratio_def e_def q_def x_def)
  have pos: "(0::rat) < 2 powi n" for n by (simp add: zero_less_power_int)
  have lo: "2 powi e \<le> q" and hi: "q < 2 powi (e + 1)"
    using binary_exponent_bounds [OF assms] by (simp_all add: e_def q_def)
  have "2 powi e * 2 powi (52 - e) \<le> x"
    unfolding x_def using lo pos [of "52 - e"] by (simp add: mult_right_mono)
  moreover have "(2::rat) powi e * 2 powi (52 - e) = 2 powi 52"
    by (simp add: power_int_add [symmetric])
  ultimately have "of_int (2 ^ 52) \<le> x" by simp
  then have m_lo: "2 ^ 52 \<le> round_half_even x" by (rule round_half_even_ge)
  have "x < 2 powi (e + 1) * 2 powi (52 - e)"
    unfolding x_def using hi pos [of "52 - e"] by (simp add: mult_strict_right_mono)
  moreover have "(2::rat) powi (e + 1) * 2 powi (52 - e) = 2 powi 53"
    by (simp add: power_int_add [symmetric])
  ultimately have "x \<le> of_int (2 ^ 53)" by simp
  then have m_hi: "round_half_even x \<le> 2 ^ 53" by (rule round_half_even_le)
  have "(2::rat) powi (52 + (e - 52)) = 2 powi 52 * 2 powi (e - 52)"
    by (rule power_int_add) simp
  moreover have "52 + (e - 52) = e" by simp
  ultimately have "(2::rat) powi e = 2 powi 52 * 2 powi (e - 52)"
    by (simp only:)
  also have "\<dots> \<le> of_int (round_half_even x) * 2 powi (e - 52)"
  proof (rule mult_right_mono)
    from m_lo have "(of_int (2 ^ 52) :: rat) \<le> of_int (round_half_even x)"
      by (simp only: of_int_le_iff)
    then show "(2::rat) powi 52 \<le> of_int (round_half_even x)" by simp
    show "(0::rat) \<le> 2 powi (e - 52)" using pos [of "e - 52"] by simp
  qed
  finally show "(2::rat) powi binary_exponent a b \<le> float_of_ratio a b"
    by (simp add: f e_def)
  have "of_int (round_half_even x) * 2 powi (e - 52) \<le> (2::rat) powi 53 * 2 powi (e - 52)"
  proof (rule mult_right_mono)
    from m_hi have "(of_int (round_half_even x) :: rat) \<le> of_int (2 ^ 53)"
      by (simp only: of_int_le_iff)
    then show "(of_int (round_half_even x) :: rat) \<le> 2 powi 53" by simp
    show "(0::rat) \<le> 2 powi (e - 52)" using pos [of "e - 52"] by simp
  qed
  also have "(2::rat) powi 53 * 2 powi (e - 52) = 2 powi (e + 1)"
  proof -
    have "(2::rat) powi (53 + (e - 52)) = 2 powi 53 * 2 powi (e - 52)"
      by (rule power_int_add) simp
    moreover have "53 + (e - 52) = e + 1" by simp
    ultimately show ?thesis by (simp only:)
  qed
  finally show "float_of_ratio a b \<le> (2::rat) powi (binary_exponent a b + 1)"
    by (simp add: f e_def)
qed

lemma float_of_ratio_threshold:
  assumes b: "0 < b" "b \<le> 2 ^ 52"
  shows "NULL_RATE_WARNING < float_of_ratio a b \<longleftrightarrow> 3 * b < 10 * a"
proof (cases "a = 0")
  case True
  then show ?thesis by (simp add: float_of_ratio_def NULL_RATE_WARNING_value)
next
  case False
  then have a: "0 < a" by simp
  define e where "e = binary_exponent a b"
  define q :: rat where "q = of_nat a / of_nat b"
  have bpos: "(0::rat) < of_nat b" using b(1) by simp
  have lo: "2 powi e \<le> q" and hi: "q < 2 powi (e + 1)"
    using binary_exponent_bounds [OF a b(1)] by (simp_all add: e_def q_def)
  have flo: "2 powi e \<le> float_of_ratio a b" and fhi: "float_of_ratio a b \<le> 2 powi (e + 1)"
    using float_of_ratio_range [OF a b(1)] by (simp_all add: e_def)
  consider "e \<le> - 3" | "e = - 2" | "- 1 \<le> e" by linarith
  then show ?thesis
  proof cases
    case 1
    then have "(2::rat) powi (e + 1) \<le> 2 powi (- 2)"
      by (intro power_int_increasing) simp_all
    then have up: "(2::rat) powi (e + 1) \<le> 1 / 4" by (simp add: power_int_minus_divide)
    with fhi have "\<not> NULL_RATE_WARNING < float_of_ratio a b"
      by (simp add: NULL_RATE_WARNING_value)
    moreover from hi up have "q < 1 / 4" by simp
    then have "(of_nat a :: rat) * 4 < of_nat b"
      using bpos by (simp add: q_def field_simps)
    then have "(of_nat (a * 4) :: rat) < of_nat b" by simp
    then have "a * 4 < b" by (simp only: of_nat_less_iff)
    then have "\<not> 3 * b < 10 * a" by simp
    ultimately show ?thesis by simp
  next
    case 3
    then have "(2::rat) powi (- 1) \<le> 2 powi e"
      by (intro power_int_increasing) simp_all
    then have dn: "1 / 2 \<le> (2::rat) powi e" by (simp add: power_int_minus_divide)
    with flo have "NULL_RATE_WARNING < float_of_ratio a b"
      by (simp add: NULL_RATE_WARNING_value)
    moreover from lo dn have "1 / 2 \<le> q" by simp
    then have "(of_nat b :: rat) \<le> of_nat a * 2"
      using bpos by (simp add: q_def field_simps)
    then have "(of_nat b :: rat) \<le> of_nat (a * 2)" by simp
    then have "b \<le> a * 2" by (simp only: of_nat_le_iff)
    with b(1) have "3 * b < 10 * a" by simp
    ultimately show ?thesis by simp
  next
    case 2
    define x where "x = q * 2 ^ 54"
    have f: "float_of_ratio a b = of_int (round_half_even x) / 2 ^ 54"
      using a 2 by (simp add: float_of_ratio_def e_def [symmetric] q_def x_def power_int_minus_divide)
    have "NULL_RATE_WARNING < float_of_ratio a b
            \<longleftrightarrow> (of_int 5404319552844595 :: rat) < of_int (round_half_even x)"
      by (simp add: f NULL_RATE_WARNING_value divide_less_cancel)
    also have "\<dots> \<longleftrightarrow> 5404319552844595 < round_half_even x"
      by (simp only: of_int_less_iff)
    also have "\<dots> \<longleftrightarrow> of_int 5404319552844595 + 1 / 2 \<le> x"
      by (rule round_half_even_gt_odd) simp
    also have "\<dots> \<longleftrightarrow> (10808639105689191 :: rat) * of_nat b \<le> of_nat a * 2 ^ 55"
      using bpos by (simp add: x_def q_def field_simps)
    also have "\<dots> \<longleftrightarrow> (of_nat (10808639105689191 * b) :: rat) \<le> of_nat (a * 2 ^ 55)"
      by simp
    also have "\<dots> \<longleftrightarrow> 10808639105689191 * b \<le> a * 2 ^ 55"
      by (simp only: of_nat_le_iff)
    also have "\<dots> \<longleftrightarrow> 3 * b < 10 * a"
    proof
      assume "10808639105689191 * b \<le> a * 2 ^ 55"
      then show "3 * b < 10 * a" using b(1) by simp
    next
      assume "3 * b < 10 * a"
      then show "10808639105689191 * b \<le> a * 2 ^ 55" using b(2) by simp
    qed
    finally show ?thesis .
  qed
qed

lemma null_pct_value:
  "null_pct n row_count = Inr (if row_count > 0 then float_of_ratio n row_count else 0)"
  by (simp add: null_pct_def py_truediv_def)

lemma high_null_iff:
  assumes "row_count \<le> 2 ^ 52"
  shows "NULL_RATE_WARNING < (if row_count > 0 then float_of_ratio n row_count else 0)
           \<longleftrightarrow> 0 < row_count \<and> 3 * row_count < 10 * n"
proof (cases "row_count > 0")
  case True
  then show ?thesis using float_of_ratio_threshold [OF True assms, of n] by simp
next
  case False
  then show ?thesis by (simp add: NULL_RATE_WARNING_value)
qed

lemma null_rates_result:
  assumes "row_count \<le> 2 ^ 52"
  shows "\<exists>rates. null_rates tv row_count cols = Inr rates
           \<and> fst ` set rates = {c \<in> set cols. \<not> starts_with ''_'' c
                  \<and> 0 < row_count \<and> 3 * row_count < 10 * null_count tv c}"
proof (induction cols)
  case Nil
  then show ?case by simp
next
  case (Cons col cols)
  then obtain rest where rest: "null_rates tv row_count cols = Inr rest"
    and keys: "fst ` set rest = {c \<in> set cols. \<not> starts_with ''_'' c
                  \<and> 0 < row_count \<and> 3 * row_count < 10 * null_count tv c}"
    by blast
  show ?case
  proof (cases "starts_with ''_'' col")
    case True
    with rest keys show ?thesis by auto
  next
    case False
    let ?flag = "0 < row_count \<and> 3 * row_count < 10 * null_count tv col"
    have fl: "NULL_RATE_WARNING < (if row_count > 0 then float_of_ratio (null_count tv col) row_count else 0)
               \<longleftrightarrow> ?flag"
      using assms by (rule high_null_iff)
    show ?thesis
    proof (cases ?flag)
      case True
      with fl False rest have "null_rates tv row_count (col # cols) =
          Inr ((col, \<lparr>hn_null_count = null_count tv col,
                      hn_null_rate = float_of_ratio (null_count tv col) row_count\<rparr>) # rest)"
        by (simp add: null_pct_value)
      moreover have "fst ` set ((col, \<lparr>hn_null_count = null_count tv col,
                      hn_null_rate = float_of_ratio (null_count tv col) row_count\<rparr>) # rest)
            = {c \<in> set (col # cols). \<not> starts_with ''_'' c
                  \<and> 0 < row_count \<and> 3 * row_count < 10 * null_count tv c}"
        using keys True False by auto
      ultimately show ?thesis by blast
    next
      case nf: False
      with fl False rest have "null_rates tv row_count (col # cols) = Inr rest"
        by (simp add: null_pct_value)
      moreover have "fst ` set rest
            = {c \<in> set (col # cols). \<not> starts_with ''_'' c
                  \<and> 0 < row_count \<and> 3 * row_count < 10 * null_count tv c}"
        using keys nf by auto
      ultimately show ?thesis by blast
    qed
  qed
qed

lemma null_rate_gt:
  "3 / 10 < null_rate tv col
     \<longleftrightarrow> 0 < length (tv_rows tv) \<and> 3 * length (tv_rows tv) < 10 * null_count tv col"
proof (cases "length (tv_rows tv) = 0")
  case True
  then show ?thesis by (simp add: null_rate_def)
next
  case False
  then have pos: "(0::rat) < of_nat (length (tv_rows tv))" by simp
  have "3 / 10 < null_rate tv col
          \<longleftrightarrow> (3::rat) * of_nat (length (tv_rows tv)) < 10 * of_nat (null_count tv col)"
    using False pos by (simp add: null_rate_def field_simps)
  also have "\<dots> \<longleftrightarrow> (of_nat (3 * length (tv_rows tv)) :: rat) < of_nat (10 * null_count tv col)"
    by simp
  also have "\<dots> \<longleftrightarrow> 3 * length (tv_rows tv) < 10 * null_count tv col"
    by (simp only: of_nat_less_iff)
  finally show ?thesis using False by simp
qed

subsection \<open>Loads that do not fail\<close>

lemma conn_load_profile:
  assumes "customer_profile (conn t) = Some []" and "dim_customers (conn t) = Some dcs"
    and "fact_transactions (conn t) = Some fts"
  shows "conn (load_customer_profile eng t) =
         (conn t)\<lparr>customer_profile := Some
            (case insert_customer_profile (select_customer_profile eng dcs fts) [] of
               Inl e \<Rightarrow> [] | Inr rows \<Rightarrow> rows)\<rparr>"
proof -
  have same: "(conn t)\<lparr>customer_profile := Some []\<rparr> = conn t"
    using assms by (cases "conn t") simp
  show ?thesis
    using assms same
    by (auto simp: load_customer_profile_def exec_load_customer_profile_def count_star_def
        split: option.splits sum.splits)
qed

lemma transform_all_profile:
  assumes "targets_empty st"
  shows "customer_profile (conn (transform_all eng (new_transformer st))) = Some (profile_loaded eng st)"
proof -
  let ?t1 = "create_tables (new_transformer st)"
  let ?t2 = "load_dim_customers eng ?t1"
  let ?t3 = "load_fact_transactions eng ?t2"
  let ?t4 = "load_fact_sentiment eng ?t3"
  have c1: "conn ?t1 = st\<lparr>dim_customers := Some [], fact_transactions := Some [],
              fact_sentiment := Some [], customer_profile := Some []\<rparr>"
    using assms by (rule conn_create_tables)
  have d1: "dim_loaded eng (conn ?t1) = dim_loaded eng st"
    by (simp add: c1 dim_loaded_def)
  have c2: "conn ?t2 = (conn ?t1)\<lparr>dim_customers := Some (dim_loaded eng st)\<rparr>"
    using conn_load_dim [of ?t1 eng] by (simp add: c1 d1 [unfolded c1])
  have c3: "conn ?t3 = (conn ?t2)\<lparr>fact_transactions := Some (fact_loaded eng st)\<rparr>"
    using conn_load_fact [of ?t2 "dim_loaded eng st" eng]
    by (simp add: c2 c1 fact_loaded_def)
  obtain x where c4: "conn ?t4 = (conn ?t3)\<lparr>fact_sentiment := x\<rparr>"
    using load_fact_sentiment_conn by blast
  have "conn (load_customer_profile eng ?t4) =
         (conn ?t4)\<lparr>customer_profile := Some
            (case insert_customer_profile
                    (select_customer_profile eng (dim_loaded eng st) (fact_loaded eng st)) [] of
               Inl e \<Rightarrow> [] | Inr rows \<Rightarrow> rows)\<rparr>"
    by (rule conn_load_profile) (simp_all add: c4 c3 c2 c1)
  then show ?thesis by (simp add: transform_all_def profile_loaded_def)
qed

lemma dim_loaded_ids_not_null:
  assumes "k \<in> set (map dc_customer_id (dim_loaded eng st))"
  shows "k \<noteq> None"
proof (cases "raw_customers st")
  case None
  with assms show ?thesis by (simp add: dim_loaded_def)
next
  case (Some raws)
  show ?thesis
  proof (cases "insert_dim_customers (select_dim_customers eng raws) []")
    case (Inl e)
    with Some assms show ?thesis by (simp add: dim_loaded_def)
  next
    case (Inr rows)
    then have "rows = select_dim_customers eng raws" by (rule insert_dim_customers_Inr)
    with Some Inr assms have "k \<in> set (map rc_customer_id (deduped_customers raws))"
      by (simp add: dim_loaded_def dim_ids_select)
    then show ?thesis
      using set_deduped [of rc_customer_id rc_load_timestamp raws]
      by (auto simp: deduped_customers_def)
  qed
qed

lemma fact_loaded_transaction_id:
  assumes "f \<in> set (fact_loaded eng st)"
  shows "ft_transaction_id f \<noteq> None"
proof -
  from assms obtain raws r where r: "r \<in> set (deduped_transactions raws)"
    and f: "f = clean_transaction eng r"
    using fact_loaded_rows by blast
  from r have "rt_transaction_id r \<noteq> None"
    using set_deduped [of rt_transaction_id rt_row_id raws]
    by (auto simp: deduped_transactions_def)
  with f show ?thesis by (simp add: clean_transaction_def)
qed

lemma lower_trim_not_null: "v \<noteq> None \<Longrightarrow> LOWER (TRIM v) \<noteq> None"
  by (simp add: LOWER_def TRIM_def)

lemma coalesce_not_null: "COALESCE x (Some y) \<noteq> None"
  by (simp add: COALESCE_def split: option.splits)

lemma fact_loaded_all:
  assumes nc: "reads_no_comma eng"
    and raws: "raw_transactions st = Some raws"
    and cat: "list_all (\<lambda>r. rt_category r \<noteq> None)
                (filter (where_fact_transactions eng (dim_loaded eng st)) (deduped_transactions raws))"
  shows "fact_loaded eng st = select_fact_transactions eng (dim_loaded eng st) raws"
proof -
  let ?dcs = "dim_loaded eng st"
  let ?sel = "filter (where_fact_transactions eng ?dcs) (deduped_transactions raws)"
  let ?new = "select_fact_transactions eng ?dcs raws"
  have new: "?new = map (clean_transaction eng) ?sel"
    by (simp add: select_fact_transactions_def)
  have keys: "\<forall>r\<in>set ?sel. rt_transaction_id r \<noteq> None"
    using set_deduped [of rt_transaction_id rt_row_id raws]
    by (auto simp: deduped_transactions_def)
  have ok: "ft_transaction_id (clean_transaction eng r) \<noteq> None
          \<and> ft_customer_id (clean_transaction eng r) \<noteq> None
          \<and> ft_transaction_date (clean_transaction eng r) \<noteq> None
          \<and> ft_amount_eur (clean_transaction eng r) \<noteq> None
          \<and> ft_category (clean_transaction eng r) \<noteq> None
          \<and> ft_customer_id (clean_transaction eng r) \<in> set (map dc_customer_id ?dcs)"
    if "r \<in> set ?sel" for r
  proof -
    from that have w: "where_fact_transactions eng ?dcs r" by simp
    from that keys have "ft_transaction_id (clean_transaction eng r) \<noteq> None"
      by (simp add: clean_transaction_def)
    moreover from w have "ft_customer_id (clean_transaction eng r) \<noteq> None"
      "ft_customer_id (clean_transaction eng r) \<in> set (map dc_customer_id ?dcs)"
      using where_fact_customer [OF w] by (simp_all add: clean_transaction_def)
    moreover have "ft_transaction_date (clean_transaction eng r) \<noteq> None"
      by (simp add: clean_transaction_def coalesce_not_null)
    moreover from where_fact_amount [OF nc w] have "ft_amount_eur (clean_transaction eng r) \<noteq> None"
      by auto
    moreover from that cat have "rt_category r \<noteq> None" by (simp add: list_all_iff)
    then have "ft_category (clean_transaction eng r) \<noteq> None"
      by (simp add: clean_transaction_def lower_trim_not_null)
    ultimately show ?thesis by simp
  qed
  have nn: "\<not> list_ex (\<lambda>r. ft_transaction_id r = None \<or> ft_customer_id r = None
                      \<or> ft_transaction_date r = None \<or> ft_amount_eur r = None
                      \<or> ft_category r = None) ?new"
    unfolding new list_ex_iff using ok by auto
  have "map ft_transaction_id ?new = map rt_transaction_id ?sel"
    unfolding new by (simp add: clean_transaction_def)
  moreover have "distinct (map rt_transaction_id (deduped_transactions raws))"
    unfolding deduped_transactions_def by (rule distinct_keys_deduped)
  then have "distinct (map rt_transaction_id ?sel)" by (rule distinct_map_filter)
  ultimately have dist: "distinct (map ft_transaction_id ([] @ ?new))" by simp
  have fk: "\<not> list_ex (\<lambda>r. ft_customer_id r \<notin> set (map dc_customer_id ?dcs)) ?new"
    unfolding new list_ex_iff using ok by auto
  from nn dist fk have "insert_fact_transactions ?dcs ?new [] = Inr ?new"
    by (simp add: insert_fact_transactions_def)
  with raws show ?thesis by (simp add: fact_loaded_def)
qed

lemma profile_loaded_all:
  assumes "list_all profile_fits (select_customer_profile eng (dim_loaded eng st) (fact_loaded eng st))"
  shows "profile_loaded eng st = select_customer_profile eng (dim_loaded eng st) (fact_loaded eng st)"
proof -
  let ?new = "select_customer_profile eng (dim_loaded eng st) (fact_loaded eng st)"
  have ids: "set (map cp_customer_id ?new) = set (map dc_customer_id (dim_loaded eng st))"
    unfolding profile_keys using left_join_keys [of "dim_loaded eng st" "fact_loaded eng st"] by simp
  have "\<forall>k\<in>set (map cp_customer_id ?new). k \<noteq> None"
    unfolding ids using dim_loaded_ids_not_null by blast
  then have nn: "\<not> list_ex (\<lambda>r. cp_customer_id r = None) ?new"
    by (auto simp: list_ex_iff)
  have "distinct (map cp_customer_id ?new)"
    unfolding profile_keys by simp
  then have dist: "distinct (map cp_customer_id ([] @ ?new))" by simp
  have fits: "\<not> list_ex (\<lambda>r. \<not> profile_fits r) ?new"
    using assms by (simp add: list_ex_iff list_all_iff)
  from nn dist fits have "insert_customer_profile ?new [] = Inr ?new"
    by (simp add: insert_customer_profile_def)
  then show ?thesis by (simp add: profile_loaded_def)
qed

subsection \<open>The profile query over tables that satisfy their keys\<close>

lemma profile_query_rows_and_nulls:
  assumes "distinct (map dc_customer_id dcs)"
    and "\<forall>t\<in>set fts. ft_transaction_id t \<noteq> None"
  shows "length (select_customer_profile eng dcs fts) = length dcs
   \<and> distinct (map cp_customer_id (select_customer_profile eng dcs fts))
   \<and> set (map cp_customer_id (select_customer_profile eng dcs fts)) = set (map dc_customer_id dcs)
   \<and> (\<forall>p\<in>set (select_customer_profile eng dcs fts).
         cp_txn_count p \<noteq> None
         \<and> (cp_txn_count p = Some 0
              \<longrightarrow> cp_sports_affinity_ratio p = None \<and> cp_avg_days_between_txns p = None)
         \<and> (cp_txn_count p = Some 1 \<longrightarrow> cp_avg_days_between_txns p = None))
   \<and> (\<forall>c\<in>set dcs. (\<forall>t\<in>set fts. ft_customer_id t \<noteq> dc_customer_id c)
         \<longrightarrow> (\<exists>p\<in>set (select_customer_profile eng dcs fts).
                cp_customer_id p = dc_customer_id c \<and> cp_txn_count p = Some 0
                \<and> cp_sports_affinity_ratio p = None \<and> cp_avg_days_between_txns p = None))
   \<and> (\<forall>js. ratio_divisor js \<noteq> Some 0 \<and> days_divisor js \<noteq> Some 0)"
proof -
  let ?sel = "select_customer_profile eng dcs fts"
  let ?js = "left_join dcs fts"
  have a: "distinct (map cp_customer_id ?sel)"
    unfolding profile_keys by simp
  have b: "set (map cp_customer_id ?sel) = set (map dc_customer_id dcs)"
    unfolding profile_keys using left_join_keys [of dcs fts] by simp
  have c: "length ?sel = length dcs"
  proof -
    have "length ?sel = length (map cp_customer_id ?sel)" by simp
    also have "\<dots> = card (set (map cp_customer_id ?sel))"
      using a by (simp only: distinct_card)
    also have "\<dots> = card (set (map dc_customer_id dcs))" by (simp only: b)
    also have "\<dots> = length (map dc_customer_id dcs)"
      using assms(1) by (simp only: distinct_card)
    finally show ?thesis by simp
  qed
  have d: "cp_txn_count p \<noteq> None
         \<and> (cp_txn_count p = Some 0
              \<longrightarrow> cp_sports_affinity_ratio p = None \<and> cp_avg_days_between_txns p = None)
         \<and> (cp_txn_count p = Some 1 \<longrightarrow> cp_avg_days_between_txns p = None)"
    if "p \<in> set ?sel" for p
  proof -
    from that obtain g where "p = profile_row eng g (group_of g ?js)"
      by (auto simp: select_customer_profile_def)
    then show ?thesis
      using null_when_no_transactions [OF assms(2), of g dcs]
        null_when_one_transaction [of "group_of g ?js"]
      by (simp add: profile_row_def)
  qed
  have e: "\<exists>p\<in>set ?sel. cp_customer_id p = dc_customer_id c \<and> cp_txn_count p = Some 0
                \<and> cp_sports_affinity_ratio p = None \<and> cp_avg_days_between_txns p = None"
    if "c \<in> set dcs" and none: "\<forall>t\<in>set fts. ft_customer_id t \<noteq> dc_customer_id c" for c
  proof -
    let ?g = "dc_customer_id c"
    from that(1) have "?g \<in> set (map cp_customer_id ?sel)"
      unfolding b by simp
    then obtain p where p: "p \<in> set ?sel" "cp_customer_id p = ?g" by auto
    then obtain g where pg: "p = profile_row eng g (group_of g ?js)"
      by (auto simp: select_customer_profile_def)
    with p(2) have "g = ?g" by (simp add: profile_row_def)
    with pg have "cp_txn_count p = Some (txn_count (group_of ?g ?js))"
      by (simp add: profile_row_def)
    with none have "cp_txn_count p = Some 0"
      by (simp add: txn_count_no_transactions)
    with d [OF p(1)] p show ?thesis by blast
  qed
  have f: "ratio_divisor js \<noteq> Some 0 \<and> days_divisor js \<noteq> Some 0" for js
    by (simp add: ratio_divisor_def days_divisor_def NULLIF_def)
  from a b c d e f show ?thesis by blast
qed

subsection \<open>The fixture engine\<close>

lemma fx_engine_reads_no_comma: "reads_no_comma fx_engine"
  unfolding reads_no_comma_def
proof (intro allI impI)
  fix s a
  assume "cast_decimal fx_engine 10 2 s = Some a"
  then have "s \<in> {''50000'', ''49999.99'', ''1234.56'', ''12.50'', ''30'', ''8.25''}"
    by (auto simp: fx_engine_def split: if_splits option.splits)
  then show "CHR '','' \<notin> set s" by auto
qed

lemma fx_engine_reads_bound_literals: "reads_bound_literals fx_engine"
  by (simp add: reads_bound_literals_def fx_engine_def)

section \<open>Properties\<close>

subsection \<open>Fact rows: amount and foreign key\<close>

text \<open>
  Claim C1, as stated, fails in its half on inclusion. A representative with the
  amount \<^verbatim>\<open>"49999.99"\<close> whose foreign key resolves is not in \<^verbatim>\<open>fact_transactions\<close>
  when another selected row has a \<^verbatim>\<open>NULL\<close> category: that row violates \<^verbatim>\<open>NOT NULL\<close>,
  the \<^verbatim>\<open>INSERT\<close> fails as a whole and the table stays empty.
\<close>

theorem bound_row_lost_to_null_category:
  "fx_transaction 0 (Some ''TXN-000001'') (Some ''CUST-0001'') (Some ''49999.99'')
     \<in> set (deduped_transactions
              [fx_transaction 0 (Some ''TXN-000001'') (Some ''CUST-0001'') (Some ''49999.99''),
               (fx_transaction 1 (Some ''TXN-000002'') (Some ''CUST-0001'') (Some ''12.50''))
                 \<lparr>rt_category := None\<rparr>])
   \<and> try_cast_decimal fx_engine 10 2 (Some ''49999.99'') = Some (4999999 / 100)
   \<and> dim_customers (conn (transform_all fx_engine (new_transformer fx_null_category)))
       = Some [clean_customer fx_engine
                 (fx_customer 0 (Some ''CUST-0001'') (Some ''ada@x.it'') (Some ''33'') 5)]
   \<and> fact_transactions (conn (transform_all fx_engine (new_transformer fx_null_category)))
       = Some []
   \<and> steps (transform_all fx_engine (new_transformer fx_null_category))
       = [Tables_created, Loaded ''dim_customers'' 1,
          Step_error ''fact_transactions'' (ConstraintError ''NOT NULL''),
          Loaded ''fact_sentiment'' 0, Loaded ''customer_profile'' 1]"
  by code_simp

text \<open>
  Claim C1, amended. Let the store's cast to \<^verbatim>\<open>DECIMAL(10, 2)\<close> read no string that
  contains a comma, and read \<^verbatim>\<open>"50000"\<close> and \<^verbatim>\<open>"49999.99"\<close> as these numbers. After a
  run of \<open>transform_all\<close> on empty target tables, every row of \<^verbatim>\<open>fact_transactions\<close>
  has an amount strictly between -1000 and 50000 and a non-null \<^verbatim>\<open>customer_id\<close>
  that is the key of exactly one row of \<^verbatim>\<open>dim_customers\<close>. The bound is exclusive:
  the row cleaned from a staging amount \<^verbatim>\<open>"50000"\<close> is never in the table, while every
  representative with the amount \<^verbatim>\<open>"49999.99"\<close> whose foreign key resolves is in it,
  provided that no representative that passes the \<^verbatim>\<open>WHERE\<close> clause has a \<^verbatim>\<open>NULL\<close>
  category.
\<close>

theorem fact_rows_amount_and_foreign_key:
  assumes "targets_empty st"
    and "reads_no_comma eng" and "reads_bound_literals eng"
    and "fact_transactions (conn (transform_all eng (new_transformer st))) = Some fts"
  shows "\<exists>dcs. dim_customers (conn (transform_all eng (new_transformer st))) = Some dcs
       \<and> (\<forall>f\<in>set fts.
             (\<exists>a. ft_amount_eur f = Some a \<and> - 1000 < a \<and> a < 50000)
             \<and> ft_customer_id f \<noteq> None
             \<and> length (filter (\<lambda>d. dc_customer_id d = ft_customer_id f) dcs) = 1)
       \<and> (\<forall>r. rt_amount r = Some ''50000'' \<longrightarrow> clean_transaction eng r \<notin> set fts)
       \<and> (\<forall>raws r. raw_transactions st = Some raws
             \<and> list_all (\<lambda>x. rt_category x \<noteq> None)
                  (filter (where_fact_transactions eng dcs) (deduped_transactions raws))
             \<and> r \<in> set (deduped_transactions raws)
             \<and> rt_amount r = Some ''49999.99''
             \<and> rt_customer_id r \<noteq> None
             \<and> rt_customer_id r \<in> set (map dc_customer_id dcs)
             \<longrightarrow> clean_transaction eng r \<in> set fts)"
proof -
  let ?dcs = "dim_loaded eng st"
  have fts: "fts = fact_loaded eng st"
    using transform_all_tables(2) [OF assms(1), of eng] assms(4) by simp
  have dcs: "dim_customers (conn (transform_all eng (new_transformer st))) = Some ?dcs"
    using assms(1) by (rule transform_all_tables(1))
  have row: "(\<exists>a. ft_amount_eur f = Some a \<and> - 1000 < a \<and> a < 50000)
             \<and> ft_customer_id f \<noteq> None
             \<and> length (filter (\<lambda>d. dc_customer_id d = ft_customer_id f) ?dcs) = 1"
    if "f \<in> set fts" for f
  proof -
    from that fts obtain r where w: "where_fact_transactions eng ?dcs r"
      and f: "f = clean_transaction eng r"
      using fact_loaded_rows by blast
    have cid: "ft_customer_id f = rt_customer_id r"
      using f by (simp add: clean_transaction_def)
    from w have fk: "rt_customer_id r \<noteq> None" "rt_customer_id r \<in> set (map dc_customer_id ?dcs)"
      using where_fact_customer by blast+
    have "length (filter (\<lambda>d. dc_customer_id d = ft_customer_id f) ?dcs) = 1"
      unfolding cid using distinct_dim_loaded fk(2) by (rule exactly_one_if_distinct)
    moreover have "\<exists>a. ft_amount_eur f = Some a \<and> - 1000 < a \<and> a < 50000"
      unfolding f using assms(2) w by (rule where_fact_amount)
    ultimately show ?thesis using cid fk(1) by simp
  qed
  have excl: "clean_transaction eng r \<notin> set fts" if "rt_amount r = Some ''50000''" for r
  proof
    assume "clean_transaction eng r \<in> set fts"
    then obtain a where "ft_amount_eur (clean_transaction eng r) = Some a" "a < 50000"
      using row by blast
    moreover have "ft_amount_eur (clean_transaction eng r) = Some 50000"
      using that assms(3)
      by (simp add: clean_transaction_def REPLACE_comma_def replace_commas_def
          try_cast_decimal_def reads_bound_literals_def)
    ultimately show False by simp
  qed
  have incl: "clean_transaction eng r \<in> set fts"
    if "raw_transactions st = Some raws
        \<and> list_all (\<lambda>x. rt_category x \<noteq> None)
             (filter (where_fact_transactions eng ?dcs) (deduped_transactions raws))
        \<and> r \<in> set (deduped_transactions raws)
        \<and> rt_amount r = Some ''49999.99''
        \<and> rt_customer_id r \<noteq> None
        \<and> rt_customer_id r \<in> set (map dc_customer_id ?dcs)" for raws r
  proof -
    have "fact_loaded eng st = select_fact_transactions eng ?dcs raws"
      using assms(2) that by (intro fact_loaded_all) simp_all
    moreover have "where_fact_transactions eng ?dcs r"
    proof -
      have "try_cast_decimal eng 10 2 (rt_amount r) = Some (4999999 / 100)"
        using that assms(3) by (simp add: try_cast_decimal_def reads_bound_literals_def)
      moreover have "is_true (sql_in (rt_customer_id r) (map dc_customer_id ?dcs))"
        using that by (simp add: is_true_sql_in)
      ultimately show ?thesis
        using that by (simp add: where_fact_transactions_def sql_less_def is_true_Some)
    qed
    ultimately show ?thesis
      using that fts by (simp add: select_fact_transactions_def)
  qed
  from dcs row excl incl show ?thesis by blast
qed

text \<open>The boundary fixture: of the two transactions, the one of 49999.99 is loaded.\<close>

theorem fact_rows_amount_and_foreign_key_witness:
  "targets_empty fx_boundary \<and> reads_no_comma fx_engine \<and> reads_bound_literals fx_engine
   \<and> fact_transactions (conn (transform_all fx_engine (new_transformer fx_boundary)))
       = Some [clean_transaction fx_engine
                 (fx_transaction 1 (Some ''TXN-000002'') (Some ''CUST-0001'') (Some ''49999.99''))]
   \<and> ft_amount_eur (clean_transaction fx_engine
        (fx_transaction 1 (Some ''TXN-000002'') (Some ''CUST-0001'') (Some ''49999.99'')))
       = Some (4999999 / 100)
   \<and> (\<exists>dcs. dim_customers (conn (transform_all fx_engine (new_transformer fx_boundary))) = Some dcs
          \<and> length (filter (\<lambda>d. dc_customer_id d = Some ''CUST-0001'') dcs) = 1)"
proof -
  let ?f = "clean_transaction fx_engine
              (fx_transaction 1 (Some ''TXN-000002'') (Some ''CUST-0001'') (Some ''49999.99''))"
  have h1: "targets_empty fx_boundary"
    by (simp add: targets_empty_def target_empty_def fx_boundary_def fx_defs)
  have h2: "fact_transactions (conn (transform_all fx_engine (new_transformer fx_boundary))) = Some [?f]"
    by code_simp
  have amt: "ft_amount_eur ?f = Some (4999999 / 100)" by code_simp
  have cid: "ft_customer_id ?f = Some ''CUST-0001''" by code_simp
  from fact_rows_amount_and_foreign_key [OF h1 fx_engine_reads_no_comma fx_engine_reads_bound_literals h2] obtain dcs where
    d: "dim_customers (conn (transform_all fx_engine (new_transformer fx_boundary))) = Some dcs"
    and one: "\<forall>f\<in>set [?f]. (\<exists>a. ft_amount_eur f = Some a \<and> - 1000 < a \<and> a < 50000)
             \<and> ft_customer_id f \<noteq> None
             \<and> length (filter (\<lambda>d. dc_customer_id d = ft_customer_id f) dcs) = 1"
    by blast
  from one cid have "length (filter (\<lambda>d. dc_customer_id d = Some ''CUST-0001'') dcs) = 1"
    by simp
  with d h1 h2 amt fx_engine_reads_no_comma fx_engine_reads_bound_literals show ?thesis by blast
qed

subsection \<open>Customer deduplication\<close>

text \<open>
  Claim C2. Customer deduplication drops the rows with a null \<^verbatim>\<open>customer_id\<close> and
  returns exactly one row for each distinct non-null key; the row returned for a key
  is a staging row of that key with the smallest load timestamp, and each returned
  row gives one row of the \<^verbatim>\<open>SELECT\<close> of \<open>load_dim_customers\<close>. Of two rows that
  share the key \<^verbatim>\<open>CUST-0001\<close> and were loaded at \<open>T1 < T2\<close>, the one of \<open>T1\<close> is
  kept, in whichever order the table holds them.
\<close>

theorem customer_dedup_keeps_earliest:
  "distinct (map rc_customer_id (deduped_customers rows))
   \<and> set (map rc_customer_id (deduped_customers rows)) = {k \<in> rc_customer_id ` set rows. k \<noteq> None}
   \<and> (\<forall>r\<in>set (deduped_customers rows). r \<in> set rows
         \<and> (\<forall>r'\<in>set rows. rc_customer_id r' = rc_customer_id r
               \<longrightarrow> rc_load_timestamp r \<le> rc_load_timestamp r'))
   \<and> map dc_customer_id (select_dim_customers eng rows) = map rc_customer_id (deduped_customers rows)
   \<and> (rc_customer_id r1 = Some ''CUST-0001'' \<and> rc_customer_id r2 = Some ''CUST-0001''
        \<and> rc_load_timestamp r1 < rc_load_timestamp r2
        \<longrightarrow> deduped_customers [r1, r2] = [r1] \<and> deduped_customers [r2, r1] = [r1])"
proof -
  let ?f = "\<lambda>r. (rc_customer_id r, rc_load_timestamp r)"
  let ?nn = "filter (\<lambda>r. rc_customer_id r \<noteq> None) rows"
  let ?s = "sort_key ?f ?nn"
  have dd: "deduped_customers rows = distinct_on rc_customer_id ?s"
    by (simp add: deduped_customers_def deduped_def)
  have a: "distinct (map rc_customer_id (deduped_customers rows))"
    unfolding dd by (rule distinct_keys_distinct_on)
  have "rc_customer_id ` set (deduped_customers rows) = rc_customer_id ` set ?s"
    unfolding dd by (rule keys_distinct_on)
  then have b: "set (map rc_customer_id (deduped_customers rows))
                 = {k \<in> rc_customer_id ` set rows. k \<noteq> None}"
    by auto
  have sub: "set (deduped_customers rows) \<subseteq> set ?s"
    unfolding dd by (rule set_distinct_on)
  have c: "r \<in> set rows \<and> (\<forall>r'\<in>set rows. rc_customer_id r' = rc_customer_id r
               \<longrightarrow> rc_load_timestamp r \<le> rc_load_timestamp r')"
    if r: "r \<in> set (deduped_customers rows)" for r
  proof -
    from r sub have rin: "r \<in> set rows" and rk: "rc_customer_id r \<noteq> None" by auto
    have "rc_load_timestamp r \<le> rc_load_timestamp r'"
      if "r' \<in> set rows" "rc_customer_id r' = rc_customer_id r" for r'
    proof -
      from that rk have "r' \<in> set ?s" by simp
      moreover have "sorted (map ?f ?s)" by (rule sorted_sort_key)
      ultimately show ?thesis
        using distinct_on_first [of rc_customer_id rc_load_timestamp ?s r r'] r that(2)
        unfolding dd by blast
    qed
    with rin show ?thesis by blast
  qed
  have d: "map dc_customer_id (select_dim_customers eng rows) = map rc_customer_id (deduped_customers rows)"
    by (rule dim_ids_select)
  have e: "deduped_customers [r1, r2] = [r1] \<and> deduped_customers [r2, r1] = [r1]"
    if "rc_customer_id r1 = Some ''CUST-0001'' \<and> rc_customer_id r2 = Some ''CUST-0001''
        \<and> rc_load_timestamp r1 < rc_load_timestamp r2"
    using that by (simp add: deduped_customers_def deduped_def)
  from a b c d e show ?thesis by blast
qed

theorem customer_dedup_keeps_earliest_witness:
  "deduped_customers
     [fx_customer 0 (Some ''CUST-0001'') (Some ''late@x.it'') (Some ''33'') 7,
      fx_customer 1 (Some ''CUST-0001'') (Some ''early@x.it'') (Some ''33'') 3]
   = [fx_customer 1 (Some ''CUST-0001'') (Some ''early@x.it'') (Some ''33'') 3]"
proof -
  let ?late = "fx_customer 0 (Some ''CUST-0001'') (Some ''late@x.it'') (Some ''33'') 7"
  let ?early = "fx_customer 1 (Some ''CUST-0001'') (Some ''early@x.it'') (Some ''33'') 3"
  have h: "rc_customer_id ?early = Some ''CUST-0001'' \<and> rc_customer_id ?late = Some ''CUST-0001''
           \<and> rc_load_timestamp ?early < rc_load_timestamp ?late"
    by (simp add: fx_customer_def)
  from customer_dedup_keeps_earliest [of "[]" fx_engine ?early ?late] h show ?thesis by blast
qed

subsection \<open>Idempotence of deduplication\<close>

text \<open>
  Claim C10. Each of the three deduplication steps (customers, transactions,
  sentiment posts), applied to its own output, returns that output unchanged.
\<close>

theorem dedup_idempotent:
  "deduped_customers (deduped_customers cs) = deduped_customers cs
   \<and> deduped_transactions (deduped_transactions ts) = deduped_transactions ts
   \<and> deduped_sentiment (deduped_sentiment ps) = deduped_sentiment ps"
  by (simp add: deduped_customers_def deduped_transactions_def deduped_sentiment_def deduped_idem)

subsection \<open>Invalid age and signup date\<close>

text \<open>
  Claim C4, as stated, fails. An age that casts to an integer outside 0..150 is not
  set to null: it violates the \<^verbatim>\<open>CHECK\<close> of \<^verbatim>\<open>dim_customers\<close>, the \<^verbatim>\<open>INSERT\<close> fails as
  a whole, and the run leaves \<^verbatim>\<open>dim_customers\<close> empty with an error step. Here the
  representative of \<^verbatim>\<open>CUST-0002\<close> has age \<^verbatim>\<open>"200"\<close>.
\<close>

theorem out_of_range_age_rejects_load:
  "fx_customer 1 (Some ''CUST-0002'') (Some ''bob@x.it'') (Some ''200'') 5
     \<in> set (deduped_customers
              [fx_customer 0 (Some ''CUST-0001'') (Some ''ada@x.it'') (Some ''33'') 5,
               fx_customer 1 (Some ''CUST-0002'') (Some ''bob@x.it'') (Some ''200'') 5])
   \<and> try_cast_integer fx_engine (Some ''200'') = Some 200
   \<and> dim_customers (conn (transform_all fx_engine (new_transformer fx_age_200))) = Some []
   \<and> steps (transform_all fx_engine (new_transformer fx_age_200))
       = [Tables_created, Step_error ''dim_customers'' (ConstraintError ''CHECK''),
          Loaded ''fact_transactions'' 0, Loaded ''fact_sentiment'' 0,
          Loaded ''customer_profile'' 0]"
  by code_simp

text \<open>
  Claim C4, amended. On empty target tables, when the age of every representative
  casts to \<^verbatim>\<open>NULL\<close> or to an integer within 0..150, every representative of a
  non-null \<^verbatim>\<open>customer_id\<close> appears in \<^verbatim>\<open>dim_customers\<close> as its cleaned row, whose age
  and signup date are the results of \<^verbatim>\<open>TRY_CAST\<close>: null where the cast fails. This
  holds for every cast of the store.
\<close>

theorem unparseable_age_or_date_is_nulled:
  assumes "targets_empty st" and "raw_customers st = Some raws"
    and "list_all (\<lambda>r. age_check (try_cast_integer eng (rc_age r))) (deduped_customers raws)"
    and "r \<in> set (deduped_customers raws)"
  shows "\<exists>dcs. dim_customers (conn (transform_all eng (new_transformer st))) = Some dcs
           \<and> clean_customer eng r \<in> set dcs
           \<and> dc_customer_id (clean_customer eng r) = rc_customer_id r
           \<and> dc_age (clean_customer eng r) = try_cast_integer eng (rc_age r)
           \<and> dc_signup_date (clean_customer eng r) = try_cast_date eng (rc_signup_date r)"
proof -
  have "dim_customers (conn (transform_all eng (new_transformer st))) = Some (dim_loaded eng st)"
    using assms(1) by (rule transform_all_tables(1))
  moreover have "dim_loaded eng st = select_dim_customers eng raws"
    using assms(2,3) by (rule dim_loaded_all)
  moreover have "clean_customer eng r \<in> set (select_dim_customers eng raws)"
    using assms(4) by (simp add: select_dim_customers_def)
  ultimately show ?thesis by (simp add: clean_customer_def)
qed

theorem unparseable_age_or_date_is_nulled_witness:
  "\<exists>dcs. dim_customers (conn (transform_all fx_engine (new_transformer fx_age_text))) = Some dcs
      \<and> clean_customer fx_engine (fx_customer 1 (Some ''CUST-0002'') (Some ''bob@x.it'') (Some ''n/a'') 5)
           \<in> set dcs
      \<and> dc_age (clean_customer fx_engine
           (fx_customer 1 (Some ''CUST-0002'') (Some ''bob@x.it'') (Some ''n/a'') 5)) = None
      \<and> dc_signup_date (clean_customer fx_engine
           (fx_customer 1 (Some ''CUST-0002'') (Some ''bob@x.it'') (Some ''n/a'') 5)) = None"
proof -
  let ?raws = "[fx_customer 0 (Some ''CUST-0001'') (Some ''ada@x.it'') (Some ''33'') 5,
                fx_customer 1 (Some ''CUST-0002'') (Some ''bob@x.it'') (Some ''n/a'') 5]"
  let ?r = "fx_customer 1 (Some ''CUST-0002'') (Some ''bob@x.it'') (Some ''n/a'') 5"
  have h1: "targets_empty fx_age_text"
    by (simp add: targets_empty_def target_empty_def fx_age_text_def fx_defs)
  have h2: "raw_customers fx_age_text = Some ?raws"
    by (simp add: fx_age_text_def fx_staging_def)
  have h3: "list_all (\<lambda>r. age_check (try_cast_integer fx_engine (rc_age r))) (deduped_customers ?raws)"
    by code_simp
  have h4: "?r \<in> set (deduped_customers ?raws)"
    by code_simp
  have age: "try_cast_integer fx_engine (rc_age ?r) = None" by code_simp
  have dt: "try_cast_date fx_engine (rc_signup_date ?r) = None" by code_simp
  from unparseable_age_or_date_is_nulled [OF h1 h2 h3 h4] age dt show ?thesis by auto
qed

subsection \<open>Amounts written with a decimal comma\<close>

text \<open>
  Claim C5 against the code. The \<^verbatim>\<open>SELECT\<close> list replaces the comma before the cast,
  the \<^verbatim>\<open>WHERE\<close> clause does not: the representative with amount \<^verbatim>\<open>"1234,56"\<close>, whose
  foreign key resolves and whose value 1234.56 is in range, is dropped, while the
  same amount written \<^verbatim>\<open>"1234.56"\<close> is loaded.
\<close>

theorem decimal_comma_row_is_dropped:
  "try_cast_decimal fx_engine 10 2 (REPLACE_comma (Some ''1234,56'')) = Some (123456 / 100)
   \<and> try_cast_decimal fx_engine 10 2 (Some ''1234,56'') = None
   \<and> dim_customers (conn (transform_all fx_engine (new_transformer fx_comma)))
       = Some [clean_customer fx_engine (fx_customer 0 (Some ''CUST-0001'') (Some ''ada@x.it'') (Some ''33'') 5)]
   \<and> fx_transaction 0 (Some ''TXN-000001'') (Some ''CUST-0001'') (Some ''1234,56'')
       \<in> set (deduped_transactions
            [fx_transaction 0 (Some ''TXN-000001'') (Some ''CUST-0001'') (Some ''1234,56''),
             fx_transaction 1 (Some ''TXN-000002'') (Some ''CUST-0001'') (Some ''1234.56'')])
   \<and> fact_transactions (conn (transform_all fx_engine (new_transformer fx_comma)))
       = Some [clean_transaction fx_engine
                 (fx_transaction 1 (Some ''TXN-000002'') (Some ''CUST-0001'') (Some ''1234.56''))]"
  by code_simp

subsection \<open>Raw orphan keys\<close>

text \<open>
  Claim C6 against the code. With a staging customer row whose \<^verbatim>\<open>customer_id\<close> is
  \<^verbatim>\<open>NULL\<close>, \<^verbatim>\<open>NOT IN\<close> is unknown for every key that is not in the list, so the
  transaction of the unknown customer \<^verbatim>\<open>CUST-9999\<close> is not counted: the check
  reports no orphan. Without that customer row it reports one.
\<close>

theorem orphan_count_with_null_customer_key:
  "find_orphan_keys fx_null_customer = Orphan_report False 0 ''None''
   \<and> find_orphan_keys fx_no_null_customer
       = Orphan_report True 1 ''Transactions with non-existent customer_id''"
  by code_simp

text \<open>
  Claim C7, as stated, fails: there is no staging state in which a transaction is
  reported by the raw orphan check and also loaded into \<^verbatim>\<open>fact_transactions\<close>,
  whatever the relation of its \<^verbatim>\<open>customer_id\<close> to the customers' keys. The loader
  compares \<^verbatim>\<open>customer_id\<close> as it is stored and never normalizes it.
\<close>

theorem no_orphan_is_matched_after_normalization:
  "\<not> (\<exists>eng st cs ts fts t c.
        targets_empty st \<and> raw_customers st = Some cs \<and> raw_transactions st = Some ts
        \<and> t \<in> set ts \<and> c \<in> set cs
        \<and> rt_customer_id t \<noteq> rc_customer_id c
        \<and> LOWER (TRIM (rt_customer_id t)) = LOWER (TRIM (rc_customer_id c))
        \<and> where_orphan cs t
        \<and> fact_transactions (conn (transform_all eng (new_transformer st))) = Some fts
        \<and> clean_transaction eng t \<in> set fts)"
proof
  assume "\<exists>eng st cs ts fts t c.
        targets_empty st \<and> raw_customers st = Some cs \<and> raw_transactions st = Some ts
        \<and> t \<in> set ts \<and> c \<in> set cs
        \<and> rt_customer_id t \<noteq> rc_customer_id c
        \<and> LOWER (TRIM (rt_customer_id t)) = LOWER (TRIM (rc_customer_id c))
        \<and> where_orphan cs t
        \<and> fact_transactions (conn (transform_all eng (new_transformer st))) = Some fts
        \<and> clean_transaction eng t \<in> set fts"
  then obtain eng st cs fts t where e: "targets_empty st" "raw_customers st = Some cs"
    "where_orphan cs t"
    "fact_transactions (conn (transform_all eng (new_transformer st))) = Some fts"
    "clean_transaction eng t \<in> set fts"
    by blast
  have "fts = fact_loaded eng st"
    using transform_all_tables(2) [OF e(1), of eng] e(4) by simp
  with orphan_not_loaded [OF e(2,3), of eng] e(5) show False by simp
qed

text \<open>
  Claim C7, amended. On empty target tables, a transaction that the raw orphan check
  reports (its \<^verbatim>\<open>customer_id\<close> is not among the staging customers' keys, be it only
  by case or spaces) is not loaded into \<^verbatim>\<open>fact_transactions\<close>, and the
  referential-integrity check on the cleaned tables reports no orphan.
\<close>

theorem orphans_are_not_loaded:
  assumes "targets_empty st" and "raw_customers st = Some cs"
    and "fact_transactions (conn (transform_all eng (new_transformer st))) = Some fts"
    and "where_orphan cs t"
  shows "clean_transaction eng t \<notin> set fts
       \<and> check_foreign_keys (conn (transform_all eng (new_transformer st))) = Fk_report True 0"
proof -
  have "fts = fact_loaded eng st"
    using transform_all_tables(2) [OF assms(1), of eng] assms(3) by simp
  with orphan_not_loaded [OF assms(2,4), of eng] have "clean_transaction eng t \<notin> set fts"
    by simp
  moreover have "check_foreign_keys (conn (transform_all eng (new_transformer st))) = Fk_report True 0"
    using transform_all_tables [OF assms(1), of eng] by (rule check_foreign_keys_loaded)
  ultimately show ?thesis by simp
qed

theorem orphans_are_not_loaded_witness:
  "where_orphan [fx_customer 0 (Some ''CUST-0001'') (Some ''ada@x.it'') (Some ''33'') 5]
     (fx_transaction 0 (Some ''TXN-000001'') (Some ''cust-0001 '') (Some ''12.50''))
   \<and> LOWER (TRIM (Some ''cust-0001 '')) = LOWER (TRIM (Some ''CUST-0001''))
   \<and> find_orphan_keys fx_case = Orphan_report True 1 ''Transactions with non-existent customer_id''
   \<and> fact_transactions (conn (transform_all fx_engine (new_transformer fx_case))) = Some []
   \<and> check_foreign_keys (conn (transform_all fx_engine (new_transformer fx_case)))
       = Fk_report True 0"
proof -
  let ?cs = "[fx_customer 0 (Some ''CUST-0001'') (Some ''ada@x.it'') (Some ''33'') 5]"
  let ?t = "fx_transaction 0 (Some ''TXN-000001'') (Some ''cust-0001 '') (Some ''12.50'')"
  have h1: "targets_empty fx_case"
    by (simp add: targets_empty_def target_empty_def fx_case_def fx_defs)
  have h2: "raw_customers fx_case = Some ?cs"
    by (simp add: fx_case_def fx_staging_def)
  have h3: "fact_transactions (conn (transform_all fx_engine (new_transformer fx_case))) = Some []"
    by code_simp
  have h4: "where_orphan ?cs ?t" by code_simp
  have n: "LOWER (TRIM (Some ''cust-0001 '')) = LOWER (TRIM (Some ''CUST-0001''))" by code_simp
  have o: "find_orphan_keys fx_case
             = Orphan_report True 1 ''Transactions with non-existent customer_id''"
    by code_simp
  from orphans_are_not_loaded [OF h1 h2 h3 h4] h3 h4 n o show ?thesis by simp
qed

subsection \<open>Exceptions of the validation pass\<close>

text \<open>
  Claim C3 against the code. On a store whose \<^verbatim>\<open>dim_customers\<close> has not been created,
  the table profile and the foreign-key check record the failure in their result,
  but the uniqueness queries of \<open>validate_transformed_data\<close> are outside any
  \<^verbatim>\<open>try\<close>: the call itself ends with the exception.
\<close>

theorem uniqueness_query_failure_escapes:
  "validate_transformed_data (fx_staging [] []) = Inl (DbError (CatalogError ''dim_customers''))
   \<and> validate_table (fx_staging [] []) ''dim_customers''
       = Table_error (DbError (CatalogError ''dim_customers''))
   \<and> check_foreign_keys (fx_staging [] [])
       = Fk_error (DbError (CatalogError ''fact_transactions''))"
  by code_simp

subsection \<open>Customer profile\<close>

text \<open>
  Claim C9, as stated, fails. The profile is loaded by one \<^verbatim>\<open>INSERT ... SELECT\<close>; when
  an aggregate does not fit the \<^verbatim>\<open>DECIMAL\<close> type of its column, the statement fails
  and \<^verbatim>\<open>customer_profile\<close> holds no row at all, not even for the customer without
  transactions. Here the two transactions of \<^verbatim>\<open>CUST-0001\<close> are 12418 days apart,
  which \<^verbatim>\<open>DECIMAL(5, 1)\<close> cannot hold.
\<close>

theorem profile_load_fails_on_decimal_overflow:
  "dim_customers (conn (transform_all fx_engine (new_transformer fx_overflow)))
     = Some [clean_customer fx_engine
               (fx_customer 0 (Some ''CUST-0001'') (Some ''ada@x.it'') (Some ''33'') 5),
             clean_customer fx_engine
               (fx_customer 1 (Some ''CUST-0002'') (Some ''bob@x.it'') (Some ''41'') 5)]
   \<and> customer_profile (conn (transform_all fx_engine (new_transformer fx_overflow))) = Some []
   \<and> steps (transform_all fx_engine (new_transformer fx_overflow))
       = [Tables_created, Loaded ''dim_customers'' 2, Loaded ''fact_transactions'' 2,
          Loaded ''fact_sentiment'' 0,
          Step_error ''customer_profile'' (ConversionError ''DECIMAL'')]"
  by code_simp

text \<open>
  Claim C9, amended. After a run of \<open>transform_all\<close> on empty target tables in which
  every aggregate of the profile query fits the \<^verbatim>\<open>DECIMAL\<close> type of its column,
  \<^verbatim>\<open>customer_profile\<close> holds the rows of the profile query: exactly one row for each
  row of \<^verbatim>\<open>dim_customers\<close>, the customers without any transaction included. In a row
  whose transaction count is 0, \<^verbatim>\<open>sports_affinity_ratio\<close> and
  \<^verbatim>\<open>avg_days_between_txns\<close> are \<^verbatim>\<open>NULL\<close>; with a count of 1,
  \<^verbatim>\<open>avg_days_between_txns\<close> is \<^verbatim>\<open>NULL\<close>; and neither divisor is ever 0.
\<close>

theorem customer_profile_rows_and_nulls:
  assumes "targets_empty st"
    and "dim_customers (conn (transform_all eng (new_transformer st))) = Some dcs"
    and "fact_transactions (conn (transform_all eng (new_transformer st))) = Some fts"
    and "list_all profile_fits (select_customer_profile eng dcs fts)"
  shows "\<exists>ps. customer_profile (conn (transform_all eng (new_transformer st))) = Some ps
       \<and> ps = select_customer_profile eng dcs fts
       \<and> length ps = length dcs
       \<and> distinct (map cp_customer_id ps)
       \<and> set (map cp_customer_id ps) = set (map dc_customer_id dcs)
       \<and> (\<forall>p\<in>set ps.
             cp_txn_count p \<noteq> None
             \<and> (cp_txn_count p = Some 0
                  \<longrightarrow> cp_sports_affinity_ratio p = None \<and> cp_avg_days_between_txns p = None)
             \<and> (cp_txn_count p = Some 1 \<longrightarrow> cp_avg_days_between_txns p = None))
       \<and> (\<forall>c\<in>set dcs. (\<forall>t\<in>set fts. ft_customer_id t \<noteq> dc_customer_id c)
             \<longrightarrow> (\<exists>p\<in>set ps.
                    cp_customer_id p = dc_customer_id c \<and> cp_txn_count p = Some 0
                    \<and> cp_sports_affinity_ratio p = None \<and> cp_avg_days_between_txns p = None))
       \<and> (\<forall>js. ratio_divisor js \<noteq> Some 0 \<and> days_divisor js \<noteq> Some 0)"
proof -
  have dcs: "dcs = dim_loaded eng st"
    using transform_all_tables(1) [OF assms(1), of eng] assms(2) by simp
  have fts: "fts = fact_loaded eng st"
    using transform_all_tables(2) [OF assms(1), of eng] assms(3) by simp
  have "profile_loaded eng st = select_customer_profile eng dcs fts"
    using assms(4) unfolding dcs fts by (rule profile_loaded_all)
  then have ps: "customer_profile (conn (transform_all eng (new_transformer st)))
                   = Some (select_customer_profile eng dcs fts)"
    using transform_all_profile [OF assms(1), of eng] by simp
  have key: "distinct (map dc_customer_id dcs)"
    unfolding dcs by (rule distinct_dim_loaded)
  have pk: "\<forall>t\<in>set fts. ft_transaction_id t \<noteq> None"
    unfolding fts using fact_loaded_transaction_id by blast
  from ps profile_query_rows_and_nulls [OF key pk, of eng] show ?thesis by simp
qed

theorem customer_profile_rows_and_nulls_witness:
  "targets_empty fx_profile
   \<and> list_all profile_fits
        (select_customer_profile fx_engine (dim_loaded fx_engine fx_profile)
           (fact_loaded fx_engine fx_profile))
   \<and> (\<exists>ps. customer_profile (conn (transform_all fx_engine (new_transformer fx_profile))) = Some ps
          \<and> length ps = 3
          \<and> (\<exists>p\<in>set ps. cp_customer_id p = Some ''CUST-0003'' \<and> cp_txn_count p = Some 0
                 \<and> cp_sports_affinity_ratio p = None \<and> cp_avg_days_between_txns p = None))"
proof -
  let ?dcs = "dim_loaded fx_engine fx_profile"
  let ?fts = "fact_loaded fx_engine fx_profile"
  let ?c = "clean_customer fx_engine (fx_customer 2 (Some ''CUST-0003'') (Some ''eve@x.it'') (Some ''27'') 5)"
  have h1: "targets_empty fx_profile"
    by (simp add: targets_empty_def target_empty_def fx_profile_def fx_defs)
  have h2: "dim_customers (conn (transform_all fx_engine (new_transformer fx_profile))) = Some ?dcs"
    using h1 by (rule transform_all_tables(1))
  have h3: "fact_transactions (conn (transform_all fx_engine (new_transformer fx_profile))) = Some ?fts"
    using h1 by (rule transform_all_tables(2))
  have h4: "list_all profile_fits (select_customer_profile fx_engine ?dcs ?fts)"
    by code_simp
  have len: "length ?dcs = 3" by code_simp
  have c3: "?c \<in> set ?dcs" by code_simp
  have id3: "dc_customer_id ?c = Some ''CUST-0003''" by code_simp
  have "list_all (\<lambda>t. ft_customer_id t \<noteq> Some ''CUST-0003'') ?fts" by code_simp
  then have none: "\<forall>t\<in>set ?fts. ft_customer_id t \<noteq> dc_customer_id ?c"
    by (simp add: list_all_iff id3)
  from customer_profile_rows_and_nulls [OF h1 h2 h3 h4] obtain ps where
    ps: "customer_profile (conn (transform_all fx_engine (new_transformer fx_profile))) = Some ps"
    and l: "length ps = length ?dcs"
    and z: "\<forall>c\<in>set ?dcs. (\<forall>t\<in>set ?fts. ft_customer_id t \<noteq> dc_customer_id c)
             \<longrightarrow> (\<exists>p\<in>set ps.
                    cp_customer_id p = dc_customer_id c \<and> cp_txn_count p = Some 0
                    \<and> cp_sports_affinity_ratio p = None \<and> cp_avg_days_between_txns p = None)"
    by blast
  from z c3 none have "\<exists>p\<in>set ps. cp_customer_id p = dc_customer_id ?c \<and> cp_txn_count p = Some 0
                    \<and> cp_sports_affinity_ratio p = None \<and> cp_avg_days_between_txns p = None"
    by blast
  with id3 have "\<exists>p\<in>set ps. cp_customer_id p = Some ''CUST-0003'' \<and> cp_txn_count p = Some 0
                    \<and> cp_sports_affinity_ratio p = None \<and> cp_avg_days_between_txns p = None"
    by simp
  with h1 h4 ps l len show ?thesis by auto
qed

subsection \<open>Null-rate flag of the table profile\<close>

text \<open>
  Claim C8. For every table of the store with at most \<open>2\<^sup>5\<^sup>2\<close> rows and every column
  whose name does not start with an underscore, \<open>validate_table\<close> lists the column
  in \<^verbatim>\<open>high_null_columns\<close> exactly when its null rate is strictly greater than
  \<open>3 / 10\<close>; a column with exactly 30% nulls is not listed. With no row, the rate
  that the code computes is 0, without a division. (The bound on the rows is where
  the rounding of the double division cannot change the comparison with the double
  \<^verbatim>\<open>0.3\<close>.)
\<close>

theorem high_null_flag_threshold:
  assumes "lookup_table st table_name = Some tv"
    and "length (tv_rows tv) \<le> 2 ^ 52"
  shows "\<exists>rates. validate_table st table_name
                   = Table_profile (length (tv_rows tv)) (tv_columns tv) rates
           \<and> (\<forall>col\<in>set (tv_columns tv). \<not> starts_with ''_'' col \<longrightarrow>
                 (col \<in> fst ` set rates \<longleftrightarrow> 3 / 10 < null_rate tv col)
                 \<and> (length (tv_rows tv) = 0
                      \<longrightarrow> null_pct (null_count tv col) (length (tv_rows tv)) = Inr 0))"
proof -
  obtain rates where r: "null_rates tv (length (tv_rows tv)) (tv_columns tv) = Inr rates"
    and keys: "fst ` set rates = {c \<in> set (tv_columns tv). \<not> starts_with ''_'' c
                  \<and> 0 < length (tv_rows tv)
                  \<and> 3 * length (tv_rows tv) < 10 * null_count tv c}"
    using null_rates_result [OF assms(2)] by blast
  have v: "validate_table st table_name = Table_profile (length (tv_rows tv)) (tv_columns tv) rates"
    using assms(1) r by (simp add: validate_table_def)
  have "(col \<in> fst ` set rates \<longleftrightarrow> 3 / 10 < null_rate tv col)
        \<and> (length (tv_rows tv) = 0
              \<longrightarrow> null_pct (null_count tv col) (length (tv_rows tv)) = Inr 0)"
    if "col \<in> set (tv_columns tv)" "\<not> starts_with ''_'' col" for col
    using that unfolding keys null_rate_gt by (simp add: null_pct_def)
  with v show ?thesis by blast
qed

text \<open>The fixture of ten rows: \<^verbatim>\<open>email\<close> at exactly 30% is not flagged, \<^verbatim>\<open>age\<close> at 40%
  is.\<close>

theorem high_null_flag_threshold_witness:
  "lookup_table fx_nulls ''raw_customers'' = Some (view_raw_customers fx_null_rows)
   \<and> length (tv_rows (view_raw_customers fx_null_rows)) = 10
   \<and> null_rate (view_raw_customers fx_null_rows) ''email'' = 3 / 10
   \<and> null_rate (view_raw_customers fx_null_rows) ''age'' = 4 / 10
   \<and> (\<exists>rates. validate_table fx_nulls ''raw_customers''
          = Table_profile 10 (tv_columns (view_raw_customers fx_null_rows)) rates
        \<and> ''email'' \<notin> fst ` set rates \<and> ''age'' \<in> fst ` set rates)"
proof -
  let ?tv = "view_raw_customers fx_null_rows"
  have h1: "lookup_table fx_nulls ''raw_customers'' = Some ?tv"
    by (simp add: lookup_table_def fx_nulls_def fx_staging_def)
  have len: "length (tv_rows ?tv) = 10" by code_simp
  then have h2: "length (tv_rows ?tv) \<le> 2 ^ 52" by simp
  have e: "null_rate ?tv ''email'' = 3 / 10" by code_simp
  have a: "null_rate ?tv ''age'' = 4 / 10" by code_simp
  have ce: "''email'' \<in> set (tv_columns ?tv) \<and> \<not> starts_with ''_'' ''email''"
    by (simp add: view_raw_customers_def)
  have ca: "''age'' \<in> set (tv_columns ?tv) \<and> \<not> starts_with ''_'' ''age''"
    by (simp add: view_raw_customers_def)
  from high_null_flag_threshold [OF h1 h2] obtain rates where
    v: "validate_table fx_nulls ''raw_customers'' = Table_profile (length (tv_rows ?tv)) (tv_columns ?tv) rates"
    and f: "\<forall>col\<in>set (tv_columns ?tv). \<not> starts_with ''_'' col \<longrightarrow>
                 (col \<in> fst ` set rates \<longleftrightarrow> 3 / 10 < null_rate ?tv col)
                 \<and> (length (tv_rows ?tv) = 0
                      \<longrightarrow> null_pct (null_count ?tv col) (length (tv_rows ?tv)) = Inr 0)"
    by blast
  from f ce e have "''email'' \<notin> fst ` set rates" by simp
  moreover from f ca a have "''age'' \<in> fst ` set rates" by simp
  ultimately show ?thesis using h1 len e a v by auto
qed

end
